theory Spec2Isabelle
  imports Complex_Main "HOL-Library.AList" "HOL-Library.Char_ord" "HOL-Library.List_Lexorder"
begin

section \<open>The grouped forecasting mixer of lightwood/mixer/sktime.py\<close>

text \<open>
  The class \<open>SkTime\<close> keeps one sktime forecaster per group of a grouped time series,
  chooses the forecaster family by a grid search, and answers inference rows from the
  group's forecaster or from a naive fallback. The embedding follows the class method by
  method. The libraries it calls (sktime, optuna, importlib, pandas) are not part of the
  repository: what the class needs from them is a record of functions, \<open>externals\<close>,
  that every method takes as its first argument.

  A float that the class only stores, copies or compares is a real, and a cell that may
  hold NaN is a \<open>real option\<close> with \<open>None\<close> for NaN. The one float computation of
  the class that the properties below rest on, the quotient of a time difference by a
  sampling interval, is taken from \<open>externals\<close>, as are the orders that pandas' sorts
  and optuna's grid sampler produce. Time stamps are integers, in nanoseconds. Logging
  is left out.
\<close>

subsection \<open>Values, errors, rows\<close>

type_synonym group = string
type_synonym val = "real option"

datatype error =
    KeyError
  | IndexError
  | AttributeError
  | ModuleNotFoundError
  | ZeroDivisionError
  | ValueError
  | TypeError
  | OverflowError
  | Raised string

text \<open>
  A row of an encoded data frame: its index label (a time stamp), the column
  \<open>__mdb_original_<order_by>\<close> that \<open>_fit\<close> sorts by, the order-by column, the value of
  the group-by columns (\<open>None\<close> when one of them is null: pandas' \<open>groupby\<close> leaves such
  a row out of every group) and the target.
\<close>

record row =
  index :: int
  mdb_original_oby :: real
  oby :: "real list"
  group_key :: "group option"
  target :: val

type_synonym data_frame = "row list"

text \<open>A cell of the \<open>prediction\<close> column: the initial integer 0 or a list of floats.\<close>

datatype cell = Zero | Arr "val list"

subsection \<open>Forecasters and the search study\<close>

datatype kwval = KInt int | KBool bool | KStr string | KNone

type_synonym kwargs = "(string \<times> kwval) list"

datatype model_class = AutoARIMA | SktimeClass string string

datatype transformer = Detrender group | Deseasonalizer group

text \<open>
  A forecaster object: \<open>transformed\<close> says whether it is a \<open>TransformedTargetForecaster\<close>
  pipeline (whose last step is the forecaster proper) or a bare instance of the class;
  \<open>fitted_y\<close> is the attribute \<open>_y\<close> of the last step, the series kept by a successful
  \<open>fit\<close>, and the object reports \<open>is_fitted\<close> exactly when it is set.
\<close>

record forecaster =
  transformed :: bool
  transformers :: "(string \<times> transformer) list"
  model_cls :: model_class
  ctor_kwargs :: kwargs
  fitted_y :: "val list option"

definition is_fitted :: "forecaster \<Rightarrow> bool" where
  "is_fitted m = (fitted_y m \<noteq> None)"

text \<open>
  The value of a trial is a float: a number, \<open>np.inf\<close>, its negative or NaN.
  \<open>score_gt a b\<close> is Python's \<open>a > b\<close>, false whenever one side is NaN. A trial that
  has been evaluated is complete, or failed when the objective returned NaN.
\<close>

datatype score = Finite real | Infinite | MinusInfinite | NotANumber

fun score_gt :: "score \<Rightarrow> score \<Rightarrow> bool" where
  "score_gt (Finite a) (Finite b) = (b < a)"
| "score_gt (Finite a) MinusInfinite = True"
| "score_gt Infinite (Finite b) = True"
| "score_gt Infinite MinusInfinite = True"
| "score_gt _ _ = False"

datatype trial_state = Running | Complete | Fail

record trial =
  params_class :: string
  trial_state :: trial_state
  trial_value :: score

type_synonym study = "trial list"

text \<open>
  A series handed to \<open>fit\<close>: the values, and the start and frequency label of the
  datetime index when \<open>_transform_index_to_datetime\<close> has set one.
\<close>

type_synonym series = "(real \<times> string) option \<times> val list"

text \<open>The value of a float division: a number, an infinity or NaN.\<close>

datatype quotient = Quot real | QInf | QNaN

text \<open>
  What the class takes from outside: the modules of \<open>sktime.forecasting\<close> with their
  attributes (\<open>importlib.import_module\<close>, \<open>getattr\<close>), the helper \<open>_add_cls_kwarg\<close>,
  the construction of a forecaster object, \<open>fit\<close> (each \<open>Some e\<close> when it raises) and
  \<open>predict\<close> of a forecaster, the attribute \<open>d\<close> of its last step (\<open>None\<close>: no such
  attribute; \<open>Some None\<close>: it is \<open>None\<close>), the error metric of the search,
  \<open>pd.date_range\<close> after \<open>datetime.utcfromtimestamp\<close>, and the number of columns of the
  encoded data frames. Further \<open>DataFrame.sort_values\<close> by a column and
  \<open>Series.sort_index\<close>, which do not say in which order they leave equal keys; the
  order in which the grid sampler visits the classes of the search space;
  \<open>Timedelta.total_seconds\<close> of a difference of time stamps, a float; and the division
  of that float by the sampling interval, which raises for a Python float zero and gives
  an infinity or NaN for a numpy one.
\<close>

record externals =
  modules :: "string \<rightharpoonup> (string \<rightharpoonup> model_class)"
  add_cls_kwarg :: "model_class \<Rightarrow> kwargs \<Rightarrow> string \<Rightarrow> kwval \<Rightarrow> kwargs"
  sk_fit :: "forecaster \<Rightarrow> series \<Rightarrow> error option"
  sk_predict :: "forecaster \<Rightarrow> int list \<Rightarrow> error + val list"
  sk_d :: "forecaster \<Rightarrow> int option option"
  trial_error_fn :: "val list \<Rightarrow> val list \<Rightarrow> error + score"
  date_range :: "real \<Rightarrow> string \<Rightarrow> nat \<Rightarrow> error option"
  n_columns :: nat
  sk_construct :: "forecaster \<Rightarrow> error option"
  sort_values :: "(row \<Rightarrow> real) \<Rightarrow> row list \<Rightarrow> row list"
  sort_index :: "row list \<Rightarrow> row list"
  grid_order :: "string list \<Rightarrow> string list"
  total_seconds :: "int \<Rightarrow> real"
  float_div :: "real \<Rightarrow> real \<Rightarrow> error + quotient"

subsection \<open>The mixer object\<close>

record ts_analysis =
  group_by :: "string list"
  window :: int
  deltas :: "group \<rightharpoonup> real"
  periods :: "group \<rightharpoonup> int list"
  stl_transforms :: "group \<Rightarrow> bool"

record mixer =
  horizon :: int
  sp :: "int option"
  ts_analysis :: ts_analysis
  grouped_by :: "string list"
  auto_size :: bool
  cutoff_factor :: int
  use_stl :: bool
  models :: "group \<rightharpoonup> forecaster"
  cutoffs :: "group \<rightharpoonup> int"
  study :: "study option"
  hyperparam_dict :: "string \<rightharpoonup> string"
  model_path :: string
  model_kwargs :: kwargs
  hyperparam_search :: bool
  possible_models :: "string list"
  n_trials :: nat
  freq :: string
  prepared :: bool

subsection \<open>Python helpers\<close>

text \<open>\<open>xs[a:]\<close> and \<open>xs[a:b]\<close> with Python's treatment of negative and large indices.\<close>

definition py_norm :: "nat \<Rightarrow> int \<Rightarrow> nat" where
  "py_norm n i = (if i < 0 then nat (max 0 (int n + i)) else min n (nat i))"

definition py_from :: "int \<Rightarrow> 'a list \<Rightarrow> 'a list" where
  "py_from a xs = drop (py_norm (length xs) a) xs"

definition py_slice :: "int \<Rightarrow> int \<Rightarrow> 'a list \<Rightarrow> 'a list" where
  "py_slice a b xs =
     take (py_norm (length xs) b - py_norm (length xs) a) (drop (py_norm (length xs) a) xs)"

text \<open>\<open>round\<close> of a float: to the nearest integer, a tie to the even one.\<close>

definition py_round :: "real \<Rightarrow> int" where
  "py_round x =
     (let f = \<lfloor>x\<rfloor>; r = x - of_int f
      in if r < 1 / 2 then f else if 1 / 2 < r then f + 1 else if even f then f else f + 1)"

definition round_float :: "quotient \<Rightarrow> error + int" where
  "round_float q =
     (case q of Quot x \<Rightarrow> Inr (py_round x) | QInf \<Rightarrow> Inl OverflowError | QNaN \<Rightarrow> Inl ValueError)"

text \<open>\<open>s.split(c)\<close>: never empty, an empty string gives one empty part.\<close>

fun split_on :: "char \<Rightarrow> string \<Rightarrow> string list" where
  "split_on c [] = [[]]"
| "split_on c (x # xs) =
     (if x = c then [] # split_on c xs
      else (case split_on c xs of [] \<Rightarrow> [[x]] | p # ps \<Rightarrow> (x # p) # ps))"

text \<open>
  \<open>df.groupby(by=gby)\<close> iterates the groups in the order of their keys, each with its
  rows in the order of the frame, and leaves out the rows whose key is null;
  \<open>df.groupby(lambda x: '__default')\<close> is one group with every row.
\<close>

definition groupby :: "('a \<Rightarrow> group option) \<Rightarrow> 'a list \<Rightarrow> (group \<times> 'a list) list" where
  "groupby key xs =
     map (\<lambda>k. (k, filter (\<lambda>x. key x = Some k) xs)) (sort (remdups (List.map_filter key xs)))"

definition groupby_default :: "'a list \<Rightarrow> (group \<times> 'a list) list" where
  "groupby_default xs = (if xs = [] then [] else [(''__default'', xs)])"

definition grouped :: "string list \<Rightarrow> ('a \<Rightarrow> group option) \<Rightarrow> 'a list \<Rightarrow> (group \<times> 'a list) list" where
  "grouped gby key xs = (if gby \<noteq> [] then groupby key xs else groupby_default xs)"

subsection \<open>\<open>_call_default\<close>\<close>

text \<open>
  The argument \<open>data\<close> is a numpy array at the call in the group loop, and the result of
  \<open>Series.squeeze()\<close> at the call for the pending rows: a scalar for one row, a pandas
  Series otherwise. \<open>flatten\<close> exists on arrays and numpy scalars, not on a Series.
\<close>

datatype fallback_data = NdArray "val list" | PdSeries "val list" | Scalar val

fun flatten :: "fallback_data \<Rightarrow> error + val list" where
  "flatten (NdArray xs) = Inr xs"
| "flatten (Scalar v) = Inr [v]"
| "flatten (PdSeries xs) = Inl AttributeError"

definition squeeze :: "val list \<Rightarrow> fallback_data" where
  "squeeze xs = (case xs of [v] \<Rightarrow> Scalar v | _ \<Rightarrow> PdSeries xs)"

text \<open>
  \<open>ydf['prediction'].iloc[idxs] = all_preds\<close>: positional assignment, which needs as many
  values as positions and positions inside the frame.
\<close>

definition iloc_assign :: "cell list \<Rightarrow> nat list \<Rightarrow> val list list \<Rightarrow> error + cell list" where
  "iloc_assign ydf idxs all_preds =
     (if length idxs \<noteq> length all_preds then Inl ValueError
      else if list_ex (\<lambda>i. length ydf \<le> i) idxs then Inl IndexError
      else Inr (fold (\<lambda>(i, p) y. y[i := Arr p]) (zip idxs all_preds) ydf))"

definition call_default :: "mixer \<Rightarrow> cell list \<Rightarrow> fallback_data \<Rightarrow> nat list \<Rightarrow> error + cell list" where
  "call_default self ydf data idxs =
     (case flatten data of
        Inl e \<Rightarrow> Inl e
      | Inr xs \<Rightarrow>
          (let series = Some 0 # butlast xs;
               all_preds = map (\<lambda>value. replicate (nat (horizon self)) value) series
           in iloc_assign ydf idxs all_preds))"

subsection \<open>\<open>_call_groupmodel\<close>\<close>

text \<open>
  \<open>series\<close> is the group's target column with its index labels, which are positions of
  \<open>ydf\<close>. \<open>np.arange(a, b)\<close> is \<open>[a..b - 1]\<close>. The assignment through \<open>.loc[idx]\<close> is a
  list update: the labels come from the frame's own index, so they are in range. An
  unfitted pipeline has no \<open>steps_\<close> and an unfitted bare forecaster has \<open>_y = None\<close>.
\<close>

definition min_offset :: "externals \<Rightarrow> forecaster \<Rightarrow> val list \<Rightarrow> int" where
  "min_offset env model y =
     (let m = - int (length y) + 1
      in case sk_d env model of
           None \<Rightarrow> m
         | Some d \<Rightarrow> m + (case d of None \<Rightarrow> 0 | Some model_d \<Rightarrow> model_d))"

definition assign_windows :: "mixer \<Rightarrow> cell list \<Rightarrow> (nat \<times> val) list \<Rightarrow> val list \<Rightarrow> cell list" where
  "assign_windows self ydf series all_preds =
     fold (\<lambda>(true_idx, (idx, _)) y.
             (let start_idx = max 0 (int true_idx);
                  end_idx = start_idx + horizon self
              in y[idx := Arr (py_slice start_idx end_idx all_preds)]))
          (enumerate 0 series) ydf"

definition call_groupmodel ::
  "externals \<Rightarrow> mixer \<Rightarrow> cell list \<Rightarrow> forecaster \<Rightarrow> (nat \<times> val) list \<Rightarrow> int \<Rightarrow> error + cell list" where
  "call_groupmodel env self ydf model series offset =
     (case fitted_y model of
        None \<Rightarrow> Inl (if transformed model then AttributeError else TypeError)
      | Some y \<Rightarrow>
          (let start = max offset (min_offset env model y);
               end = start + int (length series) + horizon self;
               answer =
                 (if model_cls model = AutoARIMA
                  then (case sk_predict env model [min_offset env model y..end - 1] of
                          Inl e \<Rightarrow> Inl e
                        | Inr ps \<Rightarrow> Inr (py_from (- (end - start)) ps))
                  else sk_predict env model [start..end - 1])
           in case answer of
                Inl e \<Rightarrow> Inl e
              | Inr all_preds \<Rightarrow> Inr (assign_windows self ydf series all_preds)))"

subsection \<open>\<open>__call__\<close>\<close>

text \<open>
  After \<open>reset_index\<close> the frame's index is the row position and the old index is the
  column \<open>__sktime_index\<close>, so the frame has one column more: a row of the frame is a
  pair of its position and the row. The body of the loop over the groups:
\<close>

definition relative_offset :: "externals \<Rightarrow> int \<Rightarrow> int \<Rightarrow> real \<Rightarrow> error + int" where
  "relative_offset env start_ts cutoff freq' =
     (let delta = total_seconds env (start_ts - cutoff)
      in case float_div env delta freq' of
           Inl e \<Rightarrow> Inl e
         | Inr q \<Rightarrow> round_float q)"

definition call_group ::
  "externals \<Rightarrow> mixer \<Rightarrow> cell list \<Rightarrow> group \<times> (nat \<times> row) list \<Rightarrow> error + cell list" where
  "call_group env self ydf g =
     (case g of (grp, series_data) \<Rightarrow>
        (case series_data of
           [] \<Rightarrow> Inl IndexError
         | first # _ \<Rightarrow>
            (let start_ts = index (snd first);
                 series = map (\<lambda>(i, r). (i, target r)) series_data;
                 series_idxs = map fst series;
                 fallback = call_default self ydf (NdArray (map snd series)) series_idxs
             in case models self grp of
                  None \<Rightarrow> fallback
                | Some forecaster \<Rightarrow>
                    if is_fitted forecaster
                    then (case deltas (ts_analysis self) grp of
                            None \<Rightarrow> Inl KeyError
                          | Some freq' \<Rightarrow>
                             (case cutoffs self grp of
                                None \<Rightarrow> Inl KeyError
                              | Some cutoff \<Rightarrow>
                                 (case relative_offset env start_ts cutoff freq' of
                                    Inl e \<Rightarrow> Inl e
                                  | Inr offset \<Rightarrow>
                                      call_groupmodel env self ydf forecaster series offset)))
                    else fallback)))"

fun call_groups ::
  "externals \<Rightarrow> mixer \<Rightarrow> cell list \<times> nat list \<Rightarrow> (group \<times> (nat \<times> row) list) list
     \<Rightarrow> error + cell list \<times> nat list" where
  "call_groups env self (ydf, pending_idxs) [] = Inr (ydf, pending_idxs)"
| "call_groups env self (ydf, pending_idxs) (g # gs) =
     (if 0 < length (snd g) * (n_columns env + 1)
      then (case call_group env self ydf g of
              Inl e \<Rightarrow> Inl e
            | Inr ydf' \<Rightarrow>
                call_groups env self
                  (ydf', filter (\<lambda>i. i \<notin> set (map fst (snd g))) pending_idxs) gs)
      else call_groups env self (ydf, pending_idxs) gs)"

text \<open>
  The set \<open>pending_idxs\<close> is kept as the ascending list of its members, the order in
  which a set of small integers is listed.
\<close>

definition call :: "externals \<Rightarrow> mixer \<Rightarrow> data_frame \<Rightarrow> error + cell list" where
  "call env self ds =
     (let df = enumerate 0 ds;
          gby = group_by (ts_analysis self);
          ydf = replicate (length df) Zero;
          pending_idxs = map fst df
      in case call_groups env self (ydf, pending_idxs)
                (grouped gby (\<lambda>(i, r). group_key r) df) of
           Inl e \<Rightarrow> Inl e
         | Inr (ydf', pending) \<Rightarrow>
             if 0 < length pending
             then call_default self ydf' (squeeze (map (\<lambda>i. target (ds ! i)) pending)) pending
             else Inr ydf')"

subsection \<open>\<open>_fit\<close>\<close>

text \<open>
  The study's bookkeeping that \<open>_fit\<close> reads: a trial is finished once it is no longer
  running, and \<open>best_params\<close> is the class of the best complete trial (a \<open>ValueError\<close>
  when no trial is complete): the study keeps the first complete trial as the best one
  and replaces it by a later complete trial only when the best value is greater than
  the later one's.
\<close>

definition is_finished :: "trial \<Rightarrow> bool" where
  "is_finished t = (trial_state t \<noteq> Running)"

fun best_of :: "trial \<Rightarrow> trial list \<Rightarrow> trial" where
  "best_of b [] = b"
| "best_of b (t # ts) =
     (if score_gt (trial_value b) (trial_value t) then best_of t ts else best_of b ts)"

definition best_params :: "study \<Rightarrow> error + string" where
  "best_params s =
     (case filter (\<lambda>t. trial_state t = Complete) s of
        [] \<Rightarrow> Inl ValueError
      | t # ts \<Rightarrow> Inr (params_class (best_of t ts)))"

definition select_module_name :: "mixer \<Rightarrow> error + string" where
  "select_module_name self =
     (if \<not> hyperparam_search self \<and> study self = None then Inr (model_path self)
      else (case study self of
              None \<Rightarrow> Inl AttributeError
            | Some s \<Rightarrow>
                (let finished_study = (length (filter is_finished s) = n_trials self)
                 in if finished_study then best_params s
                    else (case hyperparam_dict self ''class'' of
                            None \<Rightarrow> Inl KeyError
                          | Some c \<Rightarrow> Inr c))))"

text \<open>
  The module is imported outside the \<open>try\<close>; only the attribute lookup is guarded, and
  only against \<open>AttributeError\<close>.
\<close>

definition resolve_model_class :: "externals \<Rightarrow> string \<Rightarrow> error + model_class" where
  "resolve_model_class env module_name =
     (let parts = split_on CHR ''.'' module_name
      in case modules env (hd parts) of
           None \<Rightarrow> Inl ModuleNotFoundError
         | Some sktime_module \<Rightarrow>
             (case tl parts of
                [] \<Rightarrow> Inl IndexError
              | name # _ \<Rightarrow>
                  (case sktime_module name of
                     Some model_class \<Rightarrow> Inr model_class
                   | None \<Rightarrow> Inr AutoARIMA)))"

text \<open>\<open>_transform_index_to_datetime\<close>: the start is the least order-by value but the least.\<close>

definition transform_index_to_datetime ::
  "externals \<Rightarrow> val list \<Rightarrow> real list list \<Rightarrow> string \<Rightarrow> error + series" where
  "transform_index_to_datetime env values series_oby freq' =
     (case concat series_oby of
        [] \<Rightarrow> Inl ValueError
      | t # ts \<Rightarrow>
          (case filter (\<lambda>x. x \<noteq> Min (set (t # ts))) (t # ts) of
             [] \<Rightarrow> Inl ValueError
           | u # us \<Rightarrow>
               (case date_range env (Min (set (u # us))) freq' (length values) of
                  Some e \<Rightarrow> Inl e
                | None \<Rightarrow> Inr (Some (Min (set (u # us)), freq'), values))))"

definition default_forecaster :: "model_class \<Rightarrow> forecaster" where
  "default_forecaster model_class =
     \<lparr> transformed = False, transformers = [], model_cls = model_class, ctor_kwargs = [],
       fitted_y = None \<rparr>"

text \<open>
  The \<open>try\<close> at the end of the loop body: \<open>fit\<close>, and when it raises, a bare instance of
  the class with no arguments, and \<open>fit\<close> again, outside any handler. When the class
  cannot be built without arguments, \<open>model_class()\<close> raises in the handler and the
  pipeline stays in the registry.
\<close>

definition fit_with_retry ::
  "externals \<Rightarrow> model_class \<Rightarrow> mixer \<Rightarrow> group \<Rightarrow> forecaster \<Rightarrow> series
     \<Rightarrow> mixer \<times> error option" where
  "fit_with_retry env model_class self grp m series =
     (case sk_fit env m series of
        None \<Rightarrow> (self\<lparr>models := (models self)(grp \<mapsto> m\<lparr>fitted_y := Some (snd series)\<rparr>)\<rparr>, None)
      | Some _ \<Rightarrow>
          (let m' = default_forecaster model_class
           in case sk_construct env m' of
                Some e \<Rightarrow> (self, Some e)
              | None \<Rightarrow>
                  (let self' = self\<lparr>models := (models self)(grp \<mapsto> m')\<rparr>
                   in case sk_fit env m' series of
                        None \<Rightarrow>
                          (self'\<lparr>models := (models self')
                                   (grp \<mapsto> m'\<lparr>fitted_y := Some (snd series)\<rparr>)\<rparr>,
                           None)
                      | Some e \<Rightarrow> (self', Some e))))"

text \<open>
  The series that the part under \<open>if series_data.size > window\<close> hands to \<open>fit\<close>: the
  target column sorted by its index, without its null values, with a datetime index for
  Prophet, cut to its last \<open>max(500, sp * cutoff_factor)\<close> values under \<open>auto_size\<close>.
  \<open>None\<close> is the \<open>continue\<close> of the default group whose datetime index cannot be built.
\<close>

definition prepare_series ::
  "externals \<Rightarrow> mixer \<Rightarrow> group \<Rightarrow> row list \<Rightarrow> row list \<Rightarrow> int \<Rightarrow> series option" where
  "prepare_series env self grp series_data series_oby sp' =
     (let values = filter (\<lambda>v. v \<noteq> None) (map target (sort_index env series_data));
          transformed_series =
            (if model_path self = ''fbprophet.Prophet''
             then (case transform_index_to_datetime env values (map oby series_oby) (freq self) of
                     Inr s \<Rightarrow> Some s
                   | Inl _ \<Rightarrow> if grp = ''__default'' then None else Some (None, values))
             else Some (None, values))
      in case transformed_series of
           None \<Rightarrow> None
         | Some (dt, vs) \<Rightarrow>
             (if auto_size self
              then (let cutoff = min (int (length vs)) (max 500 (sp' * cutoff_factor self))
                    in Some (dt, py_from (- cutoff) vs))
              else Some (dt, vs)))"

text \<open>
  The loop body, in the order of its statements. The seasonality period: the
  constructor's \<open>sp\<close> unless it is missing or 0, else the first period detected for the
  group, else 1.
\<close>

definition seasonal_period :: "mixer \<Rightarrow> group \<Rightarrow> error + int" where
  "seasonal_period self grp =
     (let detected =
            (case (case periods (ts_analysis self) grp of None \<Rightarrow> [1] | Some ps \<Rightarrow> ps) of
               [] \<Rightarrow> Inl IndexError
             | p # _ \<Rightarrow> Inr p)
      in case sp self of
           None \<Rightarrow> detected
         | Some s \<Rightarrow> if s \<noteq> 0 then Inr s else detected)"

text \<open>
  \<open>options\<close> is the dictionary \<open>self.model_kwargs\<close> itself, so its updates stay in the
  mixer.
\<close>

definition fit_options :: "mixer \<Rightarrow> int \<Rightarrow> kwargs" where
  "fit_options self sp' =
     (let options = AList.update ''error_action'' (KStr ''raise'')
                      (AList.update ''suppress_warnings'' (KBool True)
                        (AList.update ''sp'' (KInt sp') (model_kwargs self)))
      in if model_path self = ''fbprophet.Prophet''
         then AList.update ''freq'' (KStr (freq self)) options else options)"

text \<open>
  The pipeline \<open>TransformedTargetForecaster(model_pipeline)\<close> as it is asked for: the class
  with the options it accepts, behind the group's deseasonalizer and detrender when
  \<open>use_stl\<close> is set and the analysis has them, in which case \<open>sp\<close> is passed as \<open>None\<close>
  whether the class accepts it or not. Whether building it raises is \<open>sk_construct\<close>'s.
\<close>

definition build_pipeline ::
  "externals \<Rightarrow> model_class \<Rightarrow> mixer \<Rightarrow> group \<Rightarrow> kwargs \<Rightarrow> forecaster" where
  "build_pipeline env model_class self grp options =
     (let kwargs = fold (\<lambda>(k, v) kw. add_cls_kwarg env model_class kw k v) options [];
          stl = (use_stl self \<and> stl_transforms (ts_analysis self) grp);
          kwargs = (if stl then AList.update ''sp'' KNone kwargs else kwargs)
      in \<lparr> transformed = True,
           transformers =
             (if stl then [(''deseasonalizer'', Deseasonalizer grp), (''detrender'', Detrender grp)]
              else []),
           model_cls = model_class,
           ctor_kwargs = kwargs,
           fitted_y = None \<rparr>)"

text \<open>
  When the pipeline cannot be built the loop body raises before it stores anything but
  the options. Otherwise the forecaster and the cutoff of the group are stored before
  the size of the group is looked at; \<open>series_data.size\<close> is the number of cells of the
  group's frame.
\<close>

definition fit_group ::
  "externals \<Rightarrow> model_class \<Rightarrow> row list \<Rightarrow> mixer \<Rightarrow> group \<times> row list \<Rightarrow> mixer \<times> error option" where
  "fit_group env model_class df self g =
     (case g of (grp, series_data) \<Rightarrow>
        (case seasonal_period self grp of
           Inl e \<Rightarrow> (self, Some e)
         | Inr sp' \<Rightarrow>
            (let options = fit_options self sp';
                 model = build_pipeline env model_class self grp options;
                 series_oby = (if grouped_by self = [''__default''] then df else series_data)
             in case sk_construct env model of
                  Some e \<Rightarrow> (self\<lparr>model_kwargs := options\<rparr>, Some e)
                | None \<Rightarrow>
                   (case series_oby of
                      [] \<Rightarrow> (self\<lparr>model_kwargs := options, models := (models self)(grp \<mapsto> model)\<rparr>,
                             Some IndexError)
                    | _ # _ \<Rightarrow>
                       (let self' = self\<lparr>model_kwargs := options,
                                         models := (models self)(grp \<mapsto> model),
                                         cutoffs := (cutoffs self)(grp \<mapsto> index (last series_oby))\<rparr>
                        in if window (ts_analysis self) < int (length series_data * n_columns env)
                           then (case prepare_series env self' grp series_data series_oby sp' of
                                   None \<Rightarrow> (self', None)
                                 | Some series \<Rightarrow>
                                     fit_with_retry env model_class self' grp model series)
                           else (self', None))))))"

fun fit_groups ::
  "externals \<Rightarrow> model_class \<Rightarrow> row list \<Rightarrow> mixer \<Rightarrow> (group \<times> row list) list
     \<Rightarrow> mixer \<times> error option" where
  "fit_groups env model_class df self [] = (self, None)"
| "fit_groups env model_class df self (g # gs) =
     (case fit_group env model_class df self g of
        (self', Some e) \<Rightarrow> (self', Some e)
      | (self', None) \<Rightarrow> fit_groups env model_class df self' gs)"

definition fit_inner :: "externals \<Rightarrow> mixer \<Rightarrow> data_frame \<Rightarrow> mixer \<times> error option" where
  "fit_inner env self data =
     (let df = sort_values env mdb_original_oby data;
          gby = group_by (ts_analysis self)
      in case select_module_name self of
           Inl e \<Rightarrow> (self, Some e)
         | Inr module_name \<Rightarrow>
             (case resolve_model_class env module_name of
                Inl e \<Rightarrow> (self, Some e)
              | Inr model_class \<Rightarrow>
                  fit_groups env model_class df self (grouped gby group_key df)))"

subsection \<open>\<open>_get_best_model\<close>, \<open>fit\<close> and \<open>partial_fit\<close>\<close>

text \<open>
  One trial of the search for the class \<open>c\<close> that the grid sampler suggests. Whatever is
  raised between \<open>try\<close> and \<open>except\<close> gives the error \<open>np.inf\<close>; what \<open>_fit\<close> has stored
  before it raised stays in the mixer.
\<close>

definition trial_error :: "externals \<Rightarrow> mixer \<Rightarrow> data_frame \<Rightarrow> error + score" where
  "trial_error env self test_data =
     (let y_true = py_slice 0 (horizon self) (map target test_data)
      in case call env self test_data of
           Inl e \<Rightarrow> Inl e
         | Inr ydf \<Rightarrow>
             (case ydf of
                [] \<Rightarrow> Inl IndexError
              | Zero # _ \<Rightarrow> Inl TypeError
              | Arr p # _ \<Rightarrow>
                  trial_error_fn env y_true (py_slice 0 (int (length y_true)) p)))"

definition get_best_model ::
  "externals \<Rightarrow> mixer \<Rightarrow> string \<Rightarrow> data_frame \<Rightarrow> data_frame \<Rightarrow> mixer \<times> score" where
  "get_best_model env self c train_data test_data =
     (let self1 = self\<lparr>hyperparam_dict := [''class'' \<mapsto> c]\<rparr>
      in case fit_inner env self1 train_data of
           (self2, Some e) \<Rightarrow> (self2, Infinite)
         | (self2, None) \<Rightarrow>
             (case trial_error env self2 test_data of
                Inl e \<Rightarrow> (self2, Infinite)
              | Inr error \<Rightarrow> (self2, error)))"

text \<open>
  \<open>study.optimize\<close> with the grid sampler over \<open>possible_models\<close>: one trial per class
  of the grid, in the sampler's order, each running while the objective is evaluated.
  Afterwards the trial is complete with the objective's value, or failed when that
  value is NaN; the search goes on in both cases.
\<close>

definition complete_last :: "score \<Rightarrow> study \<Rightarrow> study" where
  "complete_last v s =
     (case rev s of
        [] \<Rightarrow> []
      | t # ts \<Rightarrow>
          rev ts @ [t\<lparr>trial_state := (if v = NotANumber then Fail else Complete),
                      trial_value := v\<rparr>])"

fun optimize ::
  "externals \<Rightarrow> data_frame \<Rightarrow> data_frame \<Rightarrow> mixer \<Rightarrow> string list \<Rightarrow> mixer" where
  "optimize env train_data dev_data self [] = self"
| "optimize env train_data dev_data self (c # cs) =
     (let running = \<lparr> params_class = c, trial_state = Running, trial_value = Infinite \<rparr>;
          self1 = self\<lparr>study := map_option (\<lambda>s. s @ [running]) (study self)\<rparr>;
          (self2, error) = get_best_model env self1 c train_data dev_data;
          self3 = self2\<lparr>study := map_option (complete_last error) (study self2)\<rparr>
      in optimize env train_data dev_data self3 cs)"

definition fit :: "externals \<Rightarrow> mixer \<Rightarrow> data_frame \<Rightarrow> data_frame \<Rightarrow> mixer \<times> error option" where
  "fit env self train_data dev_data =
     (if hyperparam_search self
      then (let self1 = self\<lparr>study := Some []\<rparr>;
                self2 = optimize env train_data dev_data self1
                          (take (n_trials self1) (grid_order env (possible_models self1)));
                data = train_data @ dev_data
            in fit_inner env self2 data)
      else (let data = train_data @ dev_data in fit_inner env self data))"

definition partial_fit ::
  "externals \<Rightarrow> mixer \<Rightarrow> data_frame \<Rightarrow> data_frame \<Rightarrow> mixer \<times> error option" where
  "partial_fit env self train_data dev_data =
     (let self1 = self\<lparr>hyperparam_search := False\<rparr>
      in case fit env self1 dev_data train_data of
           (self2, Some e) \<Rightarrow> (self2, Some e)
         | (self2, None) \<Rightarrow> (self2\<lparr>prepared := True\<rparr>, None))"

subsection \<open>The mixer in use\<close>

text \<open>
  The public methods as operations on a mixer; \<open>__call__\<close> assigns no attribute. What a
  method raises is dropped here: the attributes it has assigned before stay.
\<close>

datatype operation =
    Fit data_frame data_frame
  | PartialFit data_frame data_frame
  | Predict data_frame

fun run_operation :: "externals \<Rightarrow> mixer \<Rightarrow> operation \<Rightarrow> mixer" where
  "run_operation env self (Fit train_data dev_data) = fst (fit env self train_data dev_data)"
| "run_operation env self (PartialFit train_data dev_data) =
     fst (partial_fit env self train_data dev_data)"
| "run_operation env self (Predict ds) = self"

definition run :: "externals \<Rightarrow> mixer \<Rightarrow> operation list \<Rightarrow> mixer" where
  "run env self ops = fold (\<lambda>operation s. run_operation env s operation) ops self"

text \<open>The mixer without the attributes that \<open>_fit\<close> assigns.\<close>

definition outside_registry :: "mixer \<Rightarrow> mixer" where
  "outside_registry self = self\<lparr>models := Map.empty, cutoffs := Map.empty, model_kwargs := []\<rparr>"

text \<open>The groups that \<open>_fit\<close> and \<open>__call__\<close> see in a frame.\<close>

definition groups_of :: "mixer \<Rightarrow> data_frame \<Rightarrow> group set" where
  "groups_of self data = fst ` set (grouped (group_by (ts_analysis self)) group_key data)"

text \<open>
  The forecaster that a pass of \<open>_fit\<close> leaves in the registry for a group of the sorted
  frame \<open>df\<close> when the loop body does not raise: the pipeline built from the options of
  the pass, unfitted when the group is skipped, fitted on the prepared series when its
  \<open>fit\<close> succeeds, and otherwise the bare instance of the class fitted on that series.
\<close>

definition written_forecaster ::
  "externals \<Rightarrow> model_class \<Rightarrow> mixer \<Rightarrow> row list \<Rightarrow> group \<Rightarrow> row list \<Rightarrow> forecaster \<Rightarrow> bool" where
  "written_forecaster env cls self df grp series_data m =
     (\<exists>sp'. seasonal_period self grp = Inr sp' \<and>
        (let pipeline = build_pipeline env cls self grp (fit_options self sp');
             bare = default_forecaster cls;
             series_oby = (if grouped_by self = [''__default''] then df else series_data)
         in sk_construct env pipeline = None \<and>
            (if window (ts_analysis self) < int (length series_data * n_columns env)
             then (case prepare_series env self grp series_data series_oby sp' of
                     None \<Rightarrow> m = pipeline
                   | Some series \<Rightarrow>
                       sk_fit env pipeline series = None
                         \<and> m = pipeline\<lparr>fitted_y := Some (snd series)\<rparr>
                       \<or> sk_fit env pipeline series \<noteq> None \<and> sk_construct env bare = None
                         \<and> sk_fit env bare series = None
                         \<and> m = bare\<lparr>fitted_y := Some (snd series)\<rparr>)
             else m = pipeline)))"

subsection \<open>Example objects\<close>

text \<open>
  A world in which every construction and every fit succeeds and a forecaster answers
  an offset with the offset itself, which makes the queried window visible in the
  predictions; the sorts keep equal keys in their order, the sampler visits the classes
  in the order of the list, and the quotients asked for below are exact (they are
  whole numbers of sampling intervals). Daily data grouped by one column, with a
  horizon of two steps.
\<close>

definition example_env :: externals where
  "example_env =
     \<lparr> modules = [''trend'' \<mapsto> [''STLForecaster'' \<mapsto> SktimeClass ''trend'' ''STLForecaster'']],
       add_cls_kwarg = (\<lambda>c kw k v. if k = ''sp'' then AList.update k v kw else kw),
       sk_fit = (\<lambda>m s. None),
       sk_predict = (\<lambda>m offsets. Inr (map (\<lambda>i. Some (of_int i)) offsets)),
       sk_d = (\<lambda>m. None),
       trial_error_fn = (\<lambda>y_true y_pred. Inr (Finite 0)),
       date_range = (\<lambda>start f n. None),
       n_columns = 3,
       sk_construct = (\<lambda>m. None),
       sort_values = sort_key,
       sort_index = sort_key index,
       grid_order = (\<lambda>classes. classes),
       total_seconds = (\<lambda>ns. of_int ns / 1000000000),
       float_div = (\<lambda>a b. if b = 0 then Inl ZeroDivisionError else Inr (Quot (a / b))) \<rparr>"

definition example_analysis :: ts_analysis where
  "example_analysis =
     \<lparr> group_by = [''store''], window = 10,
       deltas = [''__default'' \<mapsto> 86400, ''A'' \<mapsto> 86400, ''B'' \<mapsto> 86400],
       periods = Map.empty, stl_transforms = (\<lambda>g. False) \<rparr>"

definition example_mixer :: mixer where
  "example_mixer =
     \<lparr> horizon = 2, sp = None, ts_analysis = example_analysis, grouped_by = [''store''],
       auto_size = True, cutoff_factor = 4, use_stl = False, models = Map.empty,
       cutoffs = Map.empty, study = None, hyperparam_dict = Map.empty,
       model_path = ''trend.STLForecaster'', model_kwargs = [], hyperparam_search = False,
       possible_models = [''trend.STLForecaster''], n_trials = 1, freq = ''D'',
       prepared = False \<rparr>"

definition example_forecaster :: forecaster where
  "example_forecaster =
     \<lparr> transformed = True, transformers = [],
       model_cls = SktimeClass ''trend'' ''STLForecaster'', ctor_kwargs = [(''sp'', KInt 1)],
       fitted_y = Some [Some 1, Some 2, Some 3, Some 4, Some 5] \<rparr>"

definition example_fitted_mixer :: mixer where
  "example_fitted_mixer =
     example_mixer\<lparr>models := [''A'' \<mapsto> example_forecaster],
                   cutoffs := [''A'' \<mapsto> 10 * 86400000000000]\<rparr>"

text \<open>
  Rows by day, group and target. The training frame has four rows of group A, whose
  twelve cells exceed the window of ten, and two rows of group B.
\<close>

definition example_row :: "int \<Rightarrow> group \<Rightarrow> real \<Rightarrow> row" where
  "example_row day g v =
     \<lparr> index = day * 86400000000000, mdb_original_oby = of_int day * 86400,
       oby = [of_int day * 86400], group_key = Some g, target = Some v \<rparr>"

definition example_train :: data_frame where
  "example_train =
     [example_row 7 ''A'' 1, example_row 8 ''A'' 2, example_row 9 ''B'' 5,
      example_row 9 ''A'' 3, example_row 10 ''A'' 4, example_row 10 ''B'' 6]"

text \<open>An inference row whose group-by column is null.\<close>

definition example_null_row :: "int \<Rightarrow> real \<Rightarrow> row" where
  "example_null_row day v = (example_row day [] v)\<lparr>group_key := None\<rparr>"

text \<open>A world in which every fit raises.\<close>

definition failing_env :: externals where
  "failing_env = example_env\<lparr>sk_fit := (\<lambda>m s. Some (Raised ''fit''))\<rparr>"

text \<open>The two groups of the training frame, as \<open>groupby\<close> yields them.\<close>

definition example_group_a :: "row list" where
  "example_group_a =
     [example_row 7 ''A'' 1, example_row 8 ''A'' 2, example_row 9 ''A'' 3, example_row 10 ''A'' 4]"

definition example_group_b :: "row list" where
  "example_group_b = [example_row 9 ''B'' 5, example_row 10 ''B'' 6]"

text \<open>
  The example mixer after a fit on the training frame, and later rows of group A alone.
\<close>

definition example_trained_mixer :: mixer where
  "example_trained_mixer = fst (fit example_env example_mixer example_train [])"

definition example_later :: data_frame where
  "example_later =
     [example_row 11 ''A'' 5, example_row 12 ''A'' 6, example_row 13 ''A'' 7,
      example_row 14 ''A'' 8]"

section \<open>Properties\<close>

subsection \<open>Evaluating the examples\<close>

lemmas example_defs = example_env_def example_mixer_def example_analysis_def example_train_def
  example_row_def failing_env_def example_forecaster_def example_fitted_mixer_def
  example_null_row_def

subsection \<open>Assignments into the prediction column\<close>

lemma length_fold_update:
  "length (fold (\<lambda>x y. y[pos x := v x]) xs y) = length y"
  by (induction xs arbitrary: y) auto

lemma fold_update_other:
  "j \<notin> pos ` set xs \<Longrightarrow> fold (\<lambda>x y. y[pos x := v x]) xs y ! j = y ! j"
  by (induction xs arbitrary: y) auto

lemma fold_update_nth:
  "distinct (map pos xs) \<Longrightarrow> k < length xs \<Longrightarrow> pos (xs ! k) < length y
     \<Longrightarrow> fold (\<lambda>x y. y[pos x := v x]) xs y ! pos (xs ! k) = v (xs ! k)"
proof (induction xs arbitrary: y k)
  case Nil
  then show ?case by simp
next
  case (Cons x xs)
  show ?case
  proof (cases k)
    case 0
    have "pos x \<notin> pos ` set xs" using Cons.prems(1) by auto
    then have "fold (\<lambda>x y. y[pos x := v x]) xs (y[pos x := v x]) ! pos x = y[pos x := v x] ! pos x"
      by (rule fold_update_other)
    with 0 Cons.prems show ?thesis by simp
  next
    case (Suc k')
    with Cons.prems Cons.IH [of k' "y[pos x := v x]"] show ?thesis by simp
  qed
qed

lemma iloc_fold_eq:
  "(\<lambda>(i, p) y. y[i := Arr p]) = (\<lambda>x y. y[fst x := Arr (snd x)])"
  by (auto simp: fun_eq_iff)

lemma iloc_assign_ok:
  assumes "length idxs = length ps" and "\<forall>i\<in>set idxs. i < length ydf"
  shows "iloc_assign ydf idxs ps = Inr (fold (\<lambda>x y. y[fst x := Arr (snd x)]) (zip idxs ps) ydf)"
  using assms by (auto simp: iloc_assign_def iloc_fold_eq list_ex_iff)

subsection \<open>The fallback forecast\<close>

text \<open>
  A batch that the group loop routes to the fallback reaches \<open>_call_default\<close> as the
  array of its target values with the positions of its rows: every row gets a list of
  \<open>horizon\<close> entries, each equal to the target value of the row before it in the batch,
  and the first row gets zeros. The cells of the other rows are left as they were.
\<close>

lemma call_default_array:
  assumes "length idxs = length data" and "data \<noteq> []" and "distinct idxs"
    and "\<forall>i\<in>set idxs. i < length ydf"
  shows "\<exists>ydf'. call_default self ydf (NdArray data) idxs = Inr ydf'
           \<and> length ydf' = length ydf
           \<and> (\<forall>k<length data. ydf' ! (idxs ! k) =
                 Arr (replicate (nat (horizon self)) (if k = 0 then Some 0 else data ! (k - 1))))
           \<and> (\<forall>j. j \<notin> set idxs \<longrightarrow> ydf' ! j = ydf ! j)"
proof -
  define series where "series = Some 0 # butlast data"
  define ps where "ps = map (\<lambda>value. replicate (nat (horizon self)) value) series"
  define zs where "zs = zip idxs ps"
  define ydf' where "ydf' = fold (\<lambda>x y. y[fst x := Arr (snd x)]) zs ydf"
  have len: "length ps = length idxs"
    using assms(1,2) by (simp add: ps_def series_def)
  have res: "call_default self ydf (NdArray data) idxs = Inr ydf'"
    using iloc_assign_ok [of idxs ps ydf] len assms(4)
    by (simp add: call_default_def ps_def series_def ydf'_def zs_def)
  have fsts: "map fst zs = idxs" using len by (simp add: zs_def)
  have "ydf' ! (idxs ! k) = Arr (replicate (nat (horizon self)) (if k = 0 then Some 0 else data ! (k - 1)))"
    if k: "k < length data" for k
  proof -
    have kz: "k < length zs" using k len assms(1) by (simp add: zs_def)
    have zk: "zs ! k = (idxs ! k, ps ! k)" using kz by (simp add: zs_def)
    have "fst (zs ! k) < length ydf" using zk k assms(1,4) by simp
    then have "ydf' ! fst (zs ! k) = Arr (snd (zs ! k))"
      unfolding ydf'_def using fold_update_nth [of fst zs k ydf "\<lambda>x. Arr (snd x)"] fsts assms(3) kz
      by simp
    moreover have "series ! k = (if k = 0 then Some 0 else data ! (k - 1))"
      using k by (cases k) (simp_all add: series_def nth_butlast)
    moreover have "k < length series" using k assms(2) by (simp add: series_def)
    ultimately show ?thesis using zk by (simp add: ps_def)
  qed
  moreover have "ydf' ! j = ydf ! j" if "j \<notin> set idxs" for j
    unfolding ydf'_def using fold_update_other [of j fst zs "\<lambda>x. Arr (snd x)" ydf] that fsts
    by (metis list.set_map)
  moreover have "length ydf' = length ydf" by (simp add: ydf'_def length_fold_update)
  ultimately show ?thesis using res by blast
qed

text \<open>
  Claim C6 fails on the code for a batch of the other kind. The rows that no group
  takes (their group-by value is null) are routed to the fallback after the loop, as
  one batch, and there \<open>_call_default\<close> receives the squeezed pandas Series instead of
  its values: for two rows or more \<open>data.flatten()\<close> raises \<open>AttributeError\<close> and no row
  gets a list. The same two target values handed over as an array, as the call in the
  group loop does, give zeros and the first row's target.
\<close>

theorem pending_rows_raise_example:
  "call example_env example_mixer [example_null_row 50 5, example_null_row 51 7]
     = Inl AttributeError
   \<and> call_default example_mixer [Zero, Zero] (NdArray [Some 5, Some 7]) [0, 1]
     = Inr [Arr [Some 0, Some 0], Arr [Some 5, Some 5]]"
  by code_simp

subsection \<open>One prediction per row\<close>

text \<open>
  Claim C1 fails on the code through the same defect. A frame with a row of the fitted
  group A, a row of the unseen group B and two rows without a group gets no prediction
  at all, since the fallback for the two pending rows raises; without those two rows
  the row of A gets the answers of its forecaster and the row of B the fallback's
  zeros, in the order of the frame.
\<close>

theorem predict_raises_on_null_keys_example:
  "call example_env example_fitted_mixer
     [example_row 13 ''A'' 1, example_null_row 13 5, example_row 13 ''B'' 2, example_null_row 14 7]
     = Inl AttributeError
   \<and> call example_env example_fitted_mixer [example_row 13 ''A'' 1, example_row 13 ''B'' 2]
     = Inr [Arr [Some 3, Some 4], Arr [Some 0, Some 0]]"
  by code_simp

subsection \<open>The query window of a group's forecaster\<close>

text \<open>
  Claim C2 as the specification states it fails: a query whose computed offset lies
  below the least offset the forecaster can answer raises nothing. With five retained
  training values the least offset is -4; at the computed offset -10 the forecaster is
  asked for the offsets from -4 on and the row gets its answers.
\<close>

theorem call_groupmodel_below_minimum_example:
  "- 10 < min_offset example_env example_forecaster [Some 1, Some 2, Some 3, Some 4, Some 5]
   \<and> call_groupmodel example_env example_mixer [Zero] example_forecaster [(0, Some 7)] (- 10)
       = Inr [Arr [Some (- 4), Some (- 3)]]"
  by (simp add: min_offset_def call_groupmodel_def example_env_def example_forecaster_def
      example_mixer_def assign_windows_def py_slice_def py_norm_def upto.simps)

text \<open>
  Claim C2, amended. For a fitted forecaster and a computed offset at or below its least
  answerable offset (one minus the retained training length, plus the differencing order
  \<open>d\<close> where the forecaster has one), \<open>_call_groupmodel\<close> starts the query window at that
  least offset: the forecaster is asked once, for the offsets from the least one up to
  the number of rows plus the horizon, and the engine raises only what \<open>predict\<close> raises.
\<close>

theorem call_groupmodel_clamps:
  assumes "fitted_y model = Some y" and "offset \<le> min_offset env model y"
  shows "call_groupmodel env self ydf model series offset =
           (case sk_predict env model
                   [min_offset env model y..
                    min_offset env model y + int (length series) + horizon self - 1] of
              Inl e \<Rightarrow> Inl e
            | Inr ps \<Rightarrow>
                Inr (assign_windows self ydf series
                      (if model_cls model = AutoARIMA
                       then py_from (- (int (length series) + horizon self)) ps else ps)))"
  using assms by (simp add: call_groupmodel_def max_def Let_def split: sum.splits)

theorem call_groupmodel_clamps_witness:
  "fitted_y example_forecaster = Some [Some 1, Some 2, Some 3, Some 4, Some 5]
   \<and> - 10 \<le> min_offset example_env example_forecaster [Some 1, Some 2, Some 3, Some 4, Some 5]
   \<and> sk_predict example_env example_forecaster [- 4, - 3, - 2]
       = Inr [Some (- 4), Some (- 3), Some (- 2)]
   \<and> call_groupmodel example_env example_mixer [Zero] example_forecaster [(0, Some 7)] (- 10)
       = Inr (assign_windows example_mixer [Zero] [(0, Some 7)] [Some (- 4), Some (- 3), Some (- 2)])"
proof -
  have h1: "fitted_y example_forecaster = Some [Some 1, Some 2, Some 3, Some 4, Some 5]"
    by (simp add: example_forecaster_def)
  have m: "min_offset example_env example_forecaster [Some 1, Some 2, Some 3, Some 4, Some 5] = - 4"
    by (simp add: min_offset_def example_env_def)
  have h2: "- 10 \<le> min_offset example_env example_forecaster [Some 1, Some 2, Some 3, Some 4, Some 5]"
    by (simp add: m)
  have p: "sk_predict example_env example_forecaster [- 4, - 3, - 2]
             = Inr [Some (- 4), Some (- 3), Some (- 2)]"
    by (simp add: example_env_def)
  have c: "model_cls example_forecaster \<noteq> AutoARIMA" by (simp add: example_forecaster_def)
  have hz: "horizon example_mixer = 2" by (simp add: example_mixer_def)
  show ?thesis
    using call_groupmodel_clamps [OF h1 h2, of example_mixer "[Zero]" "[(0, Some 7)]"] h1 h2
    by (simp add: m p c hz)
qed

subsection \<open>The relative offset\<close>

lemma py_round_near: "\<bar>of_int (py_round x) - x\<bar> \<le> 1 / 2"
  unfolding py_round_def Let_def by (auto simp: abs_if; linarith)

text \<open>
  Claim C8. For a group with a fitted forecaster, \<open>__call__\<close> hands \<open>_call_groupmodel\<close>
  the offset \<open>round(delta / freq)\<close>: \<open>delta\<close> is \<open>total_seconds\<close> of the index of the
  group's first inference row minus the stored cutoff of the group, \<open>freq\<close> the sampling
  interval estimated for the group, the quotient \<open>q\<close> the float that the division
  gives, and the rounded value is within one half of \<open>q\<close>. With the cutoff at day 10, an
  interval of one day and a row at day 13, where the three days are 259200 seconds and
  the division by 86400 gives 3 (both floats are exact), the offset is 3.
\<close>

theorem call_group_offset:
  assumes "models self grp = Some m" and "is_fitted m"
    and "deltas (ts_analysis self) grp = Some f"
    and "cutoffs self grp = Some c"
    and "float_div env (total_seconds env (index (snd first) - c)) f = Inr (Quot q)"
  shows "call_group env self ydf (grp, first # rest) =
           call_groupmodel env self ydf m (map (\<lambda>(i, r). (i, target r)) (first # rest))
             (py_round q)
         \<and> \<bar>of_int (py_round q) - q\<bar> \<le> 1 / 2
         \<and> (total_seconds env (13 * 86400000000000 - 10 * 86400000000000) = 259200
              \<and> float_div env 259200 86400 = Inr (Quot 3) \<longrightarrow>
              relative_offset env (13 * 86400000000000) (10 * 86400000000000) 86400 = Inr 3)"
proof -
  have "relative_offset env (13 * 86400000000000) (10 * 86400000000000) 86400 = Inr 3"
    if "total_seconds env (13 * 86400000000000 - 10 * 86400000000000) = 259200"
      and "float_div env 259200 86400 = Inr (Quot 3)"
    using that by (simp add: relative_offset_def round_float_def py_round_def)
  moreover have "call_group env self ydf (grp, first # rest) =
           call_groupmodel env self ydf m (map (\<lambda>(i, r). (i, target r)) (first # rest))
             (py_round q)"
    using assms by (simp add: call_group_def relative_offset_def round_float_def Let_def)
  ultimately show ?thesis using py_round_near by blast
qed

text \<open>
  The forecaster of the example answers an offset with the offset: the row at day 13 of
  a group whose cutoff is day 10 gets the answers for the offsets 3 and 4.
\<close>

theorem call_group_offset_witness:
  "models example_fitted_mixer ''A'' = Some example_forecaster \<and> is_fitted example_forecaster
   \<and> deltas (ts_analysis example_fitted_mixer) ''A'' = Some 86400
   \<and> cutoffs example_fitted_mixer ''A'' = Some (10 * 86400000000000)
   \<and> float_div example_env
         (total_seconds example_env (index (example_row 13 ''A'' 0) - 10 * 86400000000000)) 86400
       = Inr (Quot 3)
   \<and> relative_offset example_env (13 * 86400000000000) (10 * 86400000000000) 86400 = Inr 3
   \<and> call_group example_env example_fitted_mixer [Zero] (''A'', [(0, example_row 13 ''A'' 0)])
       = Inr [Arr [Some 3, Some 4]]"
proof -
  have h1: "models example_fitted_mixer ''A'' = Some example_forecaster"
    by (simp add: example_fitted_mixer_def)
  have h2: "is_fitted example_forecaster" by (simp add: is_fitted_def example_forecaster_def)
  have h3: "deltas (ts_analysis example_fitted_mixer) ''A'' = Some 86400"
    by (simp add: example_fitted_mixer_def example_mixer_def example_analysis_def)
  have h4: "cutoffs example_fitted_mixer ''A'' = Some (10 * 86400000000000)"
    by (simp add: example_fitted_mixer_def)
  have h5: "float_div example_env
              (total_seconds example_env (index (example_row 13 ''A'' 0) - 10 * 86400000000000))
              86400 = Inr (Quot 3)"
    by (simp add: example_env_def example_row_def)
  have e1: "total_seconds example_env (13 * 86400000000000 - 10 * 86400000000000) = 259200"
    by (simp add: example_env_def)
  have e2: "float_div example_env 259200 86400 = Inr (Quot 3)"
    by (simp add: example_env_def)
  have r: "py_round 3 = 3" by (simp add: py_round_def)
  have g: "call_groupmodel example_env example_fitted_mixer [Zero] example_forecaster
             [(0, Some 0)] 3 = Inr [Arr [Some 3, Some 4]]"
    by code_simp
  have t: "target (example_row 13 ''A'' 0) = Some 0" by (simp add: example_row_def)
  have h5': "float_div example_env
               (total_seconds example_env
                  (index (snd (0 :: nat, example_row 13 ''A'' 0)) - 10 * 86400000000000))
               86400 = Inr (Quot 3)"
    using h5 by simp
  show ?thesis
    using call_group_offset [OF h1 h2 h3 h4 h5', of "[Zero]" "[]"] h1 h2 h3 h4 h5 e1 e2 r g t
    by simp
qed

subsection \<open>What a fit pass leaves alone\<close>

lemma outside_registry_update [simp]:
  "outside_registry (self\<lparr>models := ms\<rparr>) = outside_registry self"
  "outside_registry (self\<lparr>cutoffs := cs\<rparr>) = outside_registry self"
  "outside_registry (self\<lparr>model_kwargs := kw\<rparr>) = outside_registry self"
  by (simp_all add: outside_registry_def)

lemma fit_with_retry_frame:
  "outside_registry (fst (fit_with_retry env cls self grp m series)) = outside_registry self"
  by (simp add: fit_with_retry_def Let_def split: option.splits)

lemma fit_group_Inl:
  "seasonal_period self grp = Inl e \<Longrightarrow> fit_group env cls df self (grp, series_data) = (self, Some e)"
  by (simp add: fit_group_def)

lemma fit_group_construct:
  assumes "seasonal_period self grp = Inr sp'"
    and "sk_construct env (build_pipeline env cls self grp (fit_options self sp')) = Some e"
  shows "fit_group env cls df self (grp, series_data) =
           (self\<lparr>model_kwargs := fit_options self sp'\<rparr>, Some e)"
  unfolding fit_group_def Let_def prod.case assms sum.case option.case by (rule refl)

lemma fit_group_Nil:
  assumes "seasonal_period self grp = Inr sp'"
    and "sk_construct env (build_pipeline env cls self grp (fit_options self sp')) = None"
    and "(if grouped_by self = [''__default''] then df else series_data) = []"
  shows "fit_group env cls df self (grp, series_data) =
           (self\<lparr>model_kwargs := fit_options self sp',
                 models := (models self)(grp \<mapsto> build_pipeline env cls self grp (fit_options self sp'))\<rparr>,
            Some IndexError)"
  unfolding fit_group_def Let_def prod.case assms sum.case list.case option.case by (rule refl)

lemma fit_group_Cons:
  assumes "seasonal_period self grp = Inr sp'"
    and "sk_construct env (build_pipeline env cls self grp (fit_options self sp')) = None"
    and "(if grouped_by self = [''__default''] then df else series_data) = r # rs"
    and "model = build_pipeline env cls self grp (fit_options self sp')"
    and "self' = self\<lparr>model_kwargs := fit_options self sp',
                        models := (models self)(grp \<mapsto> model),
                        cutoffs := (cutoffs self)(grp \<mapsto> index (last (r # rs)))\<rparr>"
  shows "fit_group env cls df self (grp, series_data) =
           (if window (ts_analysis self) < int (length series_data * n_columns env)
            then (case prepare_series env self' grp series_data (r # rs) sp' of
                    None \<Rightarrow> (self', None)
                  | Some series \<Rightarrow> fit_with_retry env cls self' grp model series)
            else (self', None))"
  unfolding fit_group_def Let_def prod.case assms sum.case list.case option.case by (rule refl)

text \<open>The four ways through the loop body, for proofs by cases.\<close>

lemma fit_group_cases:
  obtains (period) e where "seasonal_period self grp = Inl e"
      and "fit_group env cls df self (grp, series_data) = (self, Some e)"
    | (construct) sp' e where "seasonal_period self grp = Inr sp'"
      and "sk_construct env (build_pipeline env cls self grp (fit_options self sp')) = Some e"
      and "fit_group env cls df self (grp, series_data) =
             (self\<lparr>model_kwargs := fit_options self sp'\<rparr>, Some e)"
    | (empty) sp' where "seasonal_period self grp = Inr sp'"
      and "sk_construct env (build_pipeline env cls self grp (fit_options self sp')) = None"
      and "(if grouped_by self = [''__default''] then df else series_data) = []"
      and "fit_group env cls df self (grp, series_data) =
             (self\<lparr>model_kwargs := fit_options self sp',
                   models := (models self)(grp \<mapsto> build_pipeline env cls self grp (fit_options self sp'))\<rparr>,
              Some IndexError)"
    | (stored) sp' r rs where "seasonal_period self grp = Inr sp'"
      and "sk_construct env (build_pipeline env cls self grp (fit_options self sp')) = None"
      and "(if grouped_by self = [''__default''] then df else series_data) = r # rs"
proof (cases "seasonal_period self grp")
  case (Inl e)
  then show ?thesis using period fit_group_Inl by blast
next
  case (Inr sp')
  show ?thesis
  proof (cases "sk_construct env (build_pipeline env cls self grp (fit_options self sp'))")
    case (Some e)
    then show ?thesis using construct Inr fit_group_construct by blast
  next
    case None
    show ?thesis
    proof (cases "if grouped_by self = [''__default''] then df else series_data")
      case Nil
      then show ?thesis using empty Inr None fit_group_Nil by blast
    next
      case (Cons r rs)
      then show ?thesis using stored Inr None by blast
    qed
  qed
qed

lemma fit_group_frame:
  "outside_registry (fst (fit_group env cls df self g)) = outside_registry self"
proof -
  obtain grp series_data where g: "g = (grp, series_data)" by (cases g)
  show ?thesis
  proof (cases rule: fit_group_cases [of self grp env cls df series_data])
    case (period e)
    then show ?thesis by (simp add: g)
  next
    case (construct sp' e)
    then show ?thesis by (simp add: g)
  next
    case (empty sp')
    then show ?thesis by (simp add: g)
  next
    case (stored sp' r rs)
    show ?thesis unfolding g fit_group_Cons [OF stored refl refl]
      by (simp add: fit_with_retry_frame split: option.splits)
  qed
qed

lemma fit_groups_frame:
  "outside_registry (fst (fit_groups env cls df self gs)) = outside_registry self"
proof (induction gs arbitrary: self)
  case Nil
  then show ?case by simp
next
  case (Cons g gs)
  obtain s r where gr: "fit_group env cls df self g = (s, r)" by (cases "fit_group env cls df self g")
  have "outside_registry s = outside_registry self" using fit_group_frame [of env cls df self g] gr by simp
  then show ?case using gr Cons.IH [of s] by (cases r) simp_all
qed

lemma fit_inner_frame:
  "outside_registry (fst (fit_inner env self data)) = outside_registry self"
  by (simp add: fit_inner_def Let_def fit_groups_frame split: sum.splits)

lemma outside_registry_eqD:
  assumes "outside_registry a = outside_registry b"
  shows "hyperparam_search a = hyperparam_search b" and "study a = study b"
    and "n_trials a = n_trials b" and "possible_models a = possible_models b"
    and "horizon a = horizon b" and "ts_analysis a = ts_analysis b"
    and "hyperparam_dict a = hyperparam_dict b" and "model_path a = model_path b"
    and "prepared a = prepared b" and "grouped_by a = grouped_by b"
proof -
  have f: "\<And>s. hyperparam_search s = hyperparam_search (outside_registry s)"
    "\<And>s. study s = study (outside_registry s)"
    "\<And>s. n_trials s = n_trials (outside_registry s)"
    "\<And>s. possible_models s = possible_models (outside_registry s)"
    "\<And>s. horizon s = horizon (outside_registry s)"
    "\<And>s. ts_analysis s = ts_analysis (outside_registry s)"
    "\<And>s. hyperparam_dict s = hyperparam_dict (outside_registry s)"
    "\<And>s. model_path s = model_path (outside_registry s)"
    "\<And>s. prepared s = prepared (outside_registry s)"
    "\<And>s. grouped_by s = grouped_by (outside_registry s)"
    by (simp_all add: outside_registry_def)
  show "hyperparam_search a = hyperparam_search b" using f(1) [of a] f(1) [of b] assms by simp
  show "study a = study b" using f(2) [of a] f(2) [of b] assms by simp
  show "n_trials a = n_trials b" using f(3) [of a] f(3) [of b] assms by simp
  show "possible_models a = possible_models b" using f(4) [of a] f(4) [of b] assms by simp
  show "horizon a = horizon b" using f(5) [of a] f(5) [of b] assms by simp
  show "ts_analysis a = ts_analysis b" using f(6) [of a] f(6) [of b] assms by simp
  show "hyperparam_dict a = hyperparam_dict b" using f(7) [of a] f(7) [of b] assms by simp
  show "model_path a = model_path b" using f(8) [of a] f(8) [of b] assms by simp
  show "prepared a = prepared b" using f(9) [of a] f(9) [of b] assms by simp
  show "grouped_by a = grouped_by b" using f(10) [of a] f(10) [of b] assms by simp
qed

lemmas fit_inner_keeps = outside_registry_eqD [OF fit_inner_frame]

lemmas fit_groups_keeps = outside_registry_eqD [OF fit_groups_frame]

lemmas fit_group_keeps = outside_registry_eqD [OF fit_group_frame]

lemma get_best_model_fst:
  "fst (get_best_model env self c train_data test_data)
     = fst (fit_inner env (self\<lparr>hyperparam_dict := [''class'' \<mapsto> c]\<rparr>) train_data)"
  by (simp add: get_best_model_def Let_def split: prod.splits option.splits sum.splits)

lemma get_best_model_keeps:
  "hyperparam_search (fst (get_best_model env self c tr te)) = hyperparam_search self"
  "study (fst (get_best_model env self c tr te)) = study self"
  "n_trials (fst (get_best_model env self c tr te)) = n_trials self"
  "possible_models (fst (get_best_model env self c tr te)) = possible_models self"
  "horizon (fst (get_best_model env self c tr te)) = horizon self"
  "ts_analysis (fst (get_best_model env self c tr te)) = ts_analysis self"
  by (simp_all add: get_best_model_fst fit_inner_keeps)

lemma optimize_keeps_flag:
  "hyperparam_search (optimize env tr dv self cs) = hyperparam_search self"
proof (induction cs arbitrary: self)
  case Nil
  then show ?case by simp
next
  case (Cons c cs)
  show ?case
    by (simp add: Let_def split_def Cons.IH get_best_model_keeps)
qed

lemma fit_keeps_flag:
  "hyperparam_search (fst (fit env self tr dv)) = hyperparam_search self"
  by (simp add: fit_def Let_def fit_inner_keeps optimize_keeps_flag)

lemma partial_fit_flag:
  "\<not> hyperparam_search (fst (partial_fit env self tr dv))"
proof -
  obtain s r where f: "fit env (self\<lparr>hyperparam_search := False\<rparr>) dv tr = (s, r)"
    by (cases "fit env (self\<lparr>hyperparam_search := False\<rparr>) dv tr")
  have "\<not> hyperparam_search s"
    using fit_keeps_flag [of env "self\<lparr>hyperparam_search := False\<rparr>" dv tr] f by simp
  then show ?thesis using f by (cases r) (simp_all add: partial_fit_def)
qed

lemma run_operation_keeps_false:
  "\<not> hyperparam_search s \<Longrightarrow> \<not> hyperparam_search (run_operation env s operation)"
  by (cases operation) (simp_all add: fit_keeps_flag partial_fit_flag)

lemma run_keeps_false:
  "\<not> hyperparam_search s \<Longrightarrow> \<not> hyperparam_search (run env s ops)"
  unfolding run_def by (induction ops arbitrary: s) (simp_all add: run_operation_keeps_false)

subsection \<open>The search flag after \<open>partial_fit\<close>\<close>

text \<open>
  Claim C10. Once \<open>partial_fit\<close> has been called, \<open>hyperparam_search\<close> is false and stays
  false through every later sequence of \<open>fit\<close>, \<open>partial_fit\<close> and \<open>__call__\<close>; with the flag
  false, \<open>fit\<close> is \<open>_fit\<close> on the concatenated frames and leaves the study as it was, so
  no trial runs. \<open>partial_fit\<close> hands its \<open>dev_data\<close> to \<open>fit\<close> as the training split and
  its \<open>train_data\<close> as the dev split: the frame that is fitted is \<open>dev_data\<close> followed by
  \<open>train_data\<close>.
\<close>

theorem search_stays_off_after_partial_fit:
  "\<not> hyperparam_search (run env (fst (partial_fit env self train_data dev_data)) ops)
   \<and> (\<forall>s tr dv. \<not> hyperparam_search s \<longrightarrow>
         fit env s tr dv = fit_inner env s (tr @ dv) \<and> study (fst (fit env s tr dv)) = study s)
   \<and> partial_fit env self train_data dev_data =
       (case fit_inner env (self\<lparr>hyperparam_search := False\<rparr>) (dev_data @ train_data) of
          (self', Some e) \<Rightarrow> (self', Some e)
        | (self', None) \<Rightarrow> (self'\<lparr>prepared := True\<rparr>, None))"
proof -
  have a: "\<not> hyperparam_search (run env (fst (partial_fit env self train_data dev_data)) ops)"
    by (rule run_keeps_false) (rule partial_fit_flag)
  have b: "fit env s tr dv = fit_inner env s (tr @ dv) \<and> study (fst (fit env s tr dv)) = study s"
    if "\<not> hyperparam_search s" for s tr dv
    using that by (simp add: fit_def fit_inner_keeps)
  have c: "partial_fit env self train_data dev_data =
       (case fit_inner env (self\<lparr>hyperparam_search := False\<rparr>) (dev_data @ train_data) of
          (self', Some e) \<Rightarrow> (self', Some e)
        | (self', None) \<Rightarrow> (self'\<lparr>prepared := True\<rparr>, None))"
    by (simp add: partial_fit_def fit_def)
  from a b c show ?thesis by blast
qed

theorem search_stays_off_after_partial_fit_witness:
  "\<not> hyperparam_search example_mixer
   \<and> fit example_env example_mixer example_train [] =
       fit_inner example_env example_mixer (example_train @ [])
   \<and> \<not> hyperparam_search
         (run example_env
            (fst (partial_fit example_env (example_mixer\<lparr>hyperparam_search := True\<rparr>)
                    example_train []))
            [Fit example_train [], Predict example_train, PartialFit [] example_train])"
proof -
  have h: "\<not> hyperparam_search example_mixer" by (simp add: example_mixer_def)
  show ?thesis
    using search_stays_off_after_partial_fit
            [of example_env "example_mixer\<lparr>hyperparam_search := True\<rparr>" example_train "[]"
                "[Fit example_train [], Predict example_train, PartialFit [] example_train]"]
      h by blast
qed

lemma example_grouped:
  "grouped [''store''] group_key (sort_values example_env mdb_original_oby example_train)
     = [(''A'', example_group_a), (''B'', example_group_b)]"
  by code_simp

subsection \<open>Resolving the model class\<close>

text \<open>
  Claim C9 as the specification states it fails: an identifier whose module part names
  no module of \<open>sktime.forecasting\<close> does not resolve, and the fit raises
  \<open>ModuleNotFoundError\<close> before any group is fitted.
\<close>

theorem unknown_module_fails_example:
  "modules example_env ''nomodule'' = None
   \<and> snd (fit example_env (example_mixer\<lparr>model_path := ''nomodule.Foo''\<rparr>) example_train [])
       = Some ModuleNotFoundError
   \<and> models (fst (fit example_env (example_mixer\<lparr>model_path := ''nomodule.Foo''\<rparr>) example_train []))
       ''A'' = None"
  by code_simp

text \<open>
  Claim C9, amended. For an identifier \<open>module.class\<close> whose module is a module of
  \<open>sktime.forecasting\<close> and whose class is not an attribute of it, the fit pass goes on
  with the class \<open>AutoARIMA\<close> for every group; when the module itself cannot be imported
  the fit pass raises \<open>ModuleNotFoundError\<close> and fits nothing.
\<close>

theorem unknown_class_falls_back_to_autoarima:
  assumes "select_module_name self = Inr module_name"
    and "split_on CHR ''.'' module_name = mod_part # cls_part # rest"
  shows "(modules env mod_part = Some sktime_module \<and> sktime_module cls_part = None \<longrightarrow>
            resolve_model_class env module_name = Inr AutoARIMA
            \<and> fit_inner env self data =
                fit_groups env AutoARIMA (sort_values env mdb_original_oby data) self
                  (grouped (group_by (ts_analysis self)) group_key
                     (sort_values env mdb_original_oby data)))
         \<and> (modules env mod_part = None \<longrightarrow>
              fit_inner env self data = (self, Some ModuleNotFoundError))"
  using assms by (simp add: fit_inner_def resolve_model_class_def Let_def)

theorem unknown_class_falls_back_to_autoarima_witness:
  "select_module_name (example_mixer\<lparr>model_path := ''trend.Foo''\<rparr>) = Inr ''trend.Foo''
   \<and> split_on CHR ''.'' ''trend.Foo'' = [''trend'', ''Foo'']
   \<and> modules example_env ''trend''
       = Some [''STLForecaster'' \<mapsto> SktimeClass ''trend'' ''STLForecaster'']
   \<and> [''STLForecaster'' \<mapsto> SktimeClass ''trend'' ''STLForecaster''] ''Foo'' = None
   \<and> resolve_model_class example_env ''trend.Foo'' = Inr AutoARIMA
   \<and> snd (fit_inner example_env (example_mixer\<lparr>model_path := ''trend.Foo''\<rparr>) example_train) = None
   \<and> map_option model_cls
         (models (fst (fit_inner example_env (example_mixer\<lparr>model_path := ''trend.Foo''\<rparr>)
                        example_train)) ''A'') = Some AutoARIMA"
proof -
  let ?self = "example_mixer\<lparr>model_path := ''trend.Foo''\<rparr>"
  let ?m = "[''STLForecaster'' \<mapsto> SktimeClass ''trend'' ''STLForecaster'']"
  let ?groups = "fit_groups example_env AutoARIMA
                   (sort_values example_env mdb_original_oby example_train) ?self
                   (grouped (group_by (ts_analysis ?self)) group_key
                      (sort_values example_env mdb_original_oby example_train))"
  have h1: "select_module_name ?self = Inr ''trend.Foo''"
    by (simp add: select_module_name_def example_mixer_def)
  have h2: "split_on CHR ''.'' ''trend.Foo'' = [''trend'', ''Foo'']" by simp
  have h3: "modules example_env ''trend'' = Some ?m" by (simp add: example_env_def)
  have h4: "?m ''Foo'' = None" by simp
  have g1: "snd ?groups = None" by code_simp
  have g2: "map_option model_cls (models (fst ?groups) ''A'') = Some AutoARIMA" by code_simp
  from unknown_class_falls_back_to_autoarima [OF h1 h2, of example_env ?m example_train] h3 h4
  have r: "resolve_model_class example_env ''trend.Foo'' = Inr AutoARIMA"
    and f: "fit_inner example_env ?self example_train = ?groups"
    by blast+
  show ?thesis using h1 h2 h3 h4 r g1 g2 unfolding f by simp
qed

subsection \<open>A fit that raises\<close>

text \<open>
  Claim C3 as the specification states it fails in its last part: when the retry raises
  too, the whole fit raises. In a world where every fit raises, fitting the two groups A
  and B stops at A, and B gets no forecaster at all.
\<close>

theorem fit_aborts_example:
  "''B'' \<in> groups_of example_mixer example_train
   \<and> snd (fit failing_env example_mixer example_train []) = Some (Raised ''fit'')
   \<and> models (fst (fit failing_env example_mixer example_train [])) ''B'' = None"
proof -
  have "''B'' \<in> groups_of example_mixer example_train"
    by (simp add: groups_of_def example_defs grouped_def groupby_def List.map_filter_def)
  moreover have "snd (fit failing_env example_mixer example_train []) = Some (Raised ''fit'')"
    by code_simp
  moreover have "models (fst (fit failing_env example_mixer example_train [])) ''B'' = None"
    by code_simp
  ultimately show ?thesis by simp
qed

text \<open>
  Claim C3, amended. For a group whose pipeline has been built and whose series goes to
  \<open>fit\<close>: if \<open>fit\<close> with the configured options raises, the class is built once more,
  with no arguments, and when that succeeds the bare instance replaces the group's
  forecaster and \<open>fit\<close> is called on it once; if that succeeds the pass goes on to the
  next group with the fitted default instance. If building the bare instance raises,
  or its \<open>fit\<close> raises too, the exception leaves \<open>_fit\<close>: the pass ends there, with an
  unfitted forecaster stored for the group and the later groups not visited.
\<close>

theorem failed_fit_retried_once_then_raised:
  assumes "seasonal_period self grp = Inr sp'"
    and "model = build_pipeline env cls self grp (fit_options self sp')"
    and "sk_construct env model = None"
    and "(if grouped_by self = [''__default''] then df else series_data) = r # rs"
    and "self' = self\<lparr>model_kwargs := fit_options self sp',
                        models := (models self)(grp \<mapsto> model),
                        cutoffs := (cutoffs self)(grp \<mapsto> index (last (r # rs)))\<rparr>"
    and "window (ts_analysis self) < int (length series_data * n_columns env)"
    and "prepare_series env self' grp series_data (r # rs) sp' = Some series"
    and "sk_fit env model series = Some e1"
  shows "fit_groups env cls df self ((grp, series_data) # gs) =
           (case sk_construct env (default_forecaster cls) of
              Some e \<Rightarrow> (self', Some e)
            | None \<Rightarrow>
                (case sk_fit env (default_forecaster cls) series of
                   None \<Rightarrow>
                     fit_groups env cls df
                       (self'\<lparr>models := (models self')
                                (grp \<mapsto> (default_forecaster cls)\<lparr>fitted_y := Some (snd series)\<rparr>)\<rparr>)
                       gs
                 | Some e2 \<Rightarrow>
                     (self'\<lparr>models := (models self')(grp \<mapsto> default_forecaster cls)\<rparr>, Some e2)))"
proof -
  have c: "sk_construct env (build_pipeline env cls self grp (fit_options self sp')) = None"
    using assms(2,3) by simp
  have "fit_group env cls df self (grp, series_data) = fit_with_retry env cls self' grp model series"
    using fit_group_Cons [OF assms(1) c assms(4,2,5)] assms(6,7) by simp
  also have "\<dots> =
      (case sk_construct env (default_forecaster cls) of
         Some e \<Rightarrow> (self', Some e)
       | None \<Rightarrow>
           (case sk_fit env (default_forecaster cls) series of
              None \<Rightarrow> (self'\<lparr>models := (models self')
                                (grp \<mapsto> (default_forecaster cls)\<lparr>fitted_y := Some (snd series)\<rparr>)\<rparr>, None)
            | Some e2 \<Rightarrow> (self'\<lparr>models := (models self')(grp \<mapsto> default_forecaster cls)\<rparr>, Some e2)))"
    using assms(8) by (simp add: fit_with_retry_def Let_def split: option.splits)
  finally show ?thesis by (simp split: option.splits)
qed

theorem failed_fit_retried_once_then_raised_witness:
  "seasonal_period example_mixer ''A'' = Inr 1
   \<and> sk_construct failing_env
         (build_pipeline failing_env (SktimeClass ''trend'' ''STLForecaster'') example_mixer ''A''
            (fit_options example_mixer 1)) = None
   \<and> window (ts_analysis example_mixer) < int (length example_group_a * n_columns failing_env)
   \<and> sk_fit failing_env (build_pipeline failing_env (SktimeClass ''trend'' ''STLForecaster'')
                            example_mixer ''A'' (fit_options example_mixer 1))
         (None, [Some 1, Some 2, Some 3, Some 4]) = Some (Raised ''fit'')
   \<and> snd (fit_groups failing_env (SktimeClass ''trend'' ''STLForecaster'') example_train example_mixer
              [(''A'', example_group_a), (''B'', example_group_b)]) = Some (Raised ''fit'')
   \<and> models (fst (fit_groups failing_env (SktimeClass ''trend'' ''STLForecaster'') example_train
                      example_mixer [(''A'', example_group_a), (''B'', example_group_b)])) ''A''
       = Some (default_forecaster (SktimeClass ''trend'' ''STLForecaster''))"
proof -
  let ?cls = "SktimeClass ''trend'' ''STLForecaster''"
  let ?model = "build_pipeline failing_env ?cls example_mixer ''A'' (fit_options example_mixer 1)"
  let ?rs = "[example_row 8 ''A'' 2, example_row 9 ''A'' 3, example_row 10 ''A'' 4]"
  let ?self' = "example_mixer\<lparr>model_kwargs := fit_options example_mixer 1,
                   models := (models example_mixer)(''A'' \<mapsto> ?model),
                   cutoffs := (cutoffs example_mixer)(''A'' \<mapsto> index (last (example_row 7 ''A'' 1 # ?rs)))\<rparr>"
  have h1: "seasonal_period example_mixer ''A'' = Inr 1"
    by (simp add: seasonal_period_def example_mixer_def example_analysis_def)
  have h3: "sk_construct failing_env ?model = None"
    by (simp add: failing_env_def example_env_def)
  have h4: "(if grouped_by example_mixer = [''__default''] then example_train else example_group_a)
              = example_row 7 ''A'' 1 # ?rs"
    by (simp add: example_mixer_def example_group_a_def)
  have h6: "window (ts_analysis example_mixer) < int (length example_group_a * n_columns failing_env)"
    by (simp add: example_defs example_group_a_def)
  have h7: "prepare_series failing_env ?self' ''A'' example_group_a (example_row 7 ''A'' 1 # ?rs) 1
              = Some (None, [Some 1, Some 2, Some 3, Some 4])"
    by code_simp
  have h8: "sk_fit failing_env ?model (None, [Some 1, Some 2, Some 3, Some 4]) = Some (Raised ''fit'')"
    by (simp add: failing_env_def)
  have d: "sk_fit failing_env (default_forecaster ?cls) (None, [Some 1, Some 2, Some 3, Some 4])
             = Some (Raised ''fit'')"
    "sk_construct failing_env (default_forecaster ?cls) = None"
    by (simp_all add: failing_env_def example_env_def)
  show ?thesis
    using failed_fit_retried_once_then_raised
            [where cls = ?cls and df = example_train and gs = "[(''B'', example_group_b)]"
               and env = failing_env, OF h1 refl h3 h4 refl h6 h7 h8] h1 h3 h6 h8
    by (simp add: d)
qed

subsection \<open>The options from one group to the next\<close>

lemma update_commute:
  "k \<noteq> k' \<Longrightarrow> k \<in> fst ` set xs \<Longrightarrow>
     AList.update k v (AList.update k' v' xs) = AList.update k' v' (AList.update k v xs)"
  by (induction xs) auto

lemma update_present: "k \<in> fst ` set (AList.update k v xs)"
  by (induction xs) auto

lemma update_keeps_present: "k \<in> fst ` set xs \<Longrightarrow> k \<in> fst ` set (AList.update k' v xs)"
  by (induction xs) auto

lemma update_same: "map_of xs k = Some v \<Longrightarrow> AList.update k v xs = xs"
  by (induction xs) auto

lemma fit_options_again:
  "fit_options (self\<lparr>model_kwargs := fit_options self p\<rparr>) q = fit_options self q"
proof -
  define a b c d where "a = ''sp''" and "b = ''suppress_warnings''" and "c = ''error_action''"
    and "d = ''freq''"
  have ne: "a \<noteq> b" "a \<noteq> c" "a \<noteq> d" "b \<noteq> c" "b \<noteq> d" "c \<noteq> d"
    by (simp_all add: a_def b_def c_def d_def)
  define B C D where "B = KBool True" and "C = KStr ''raise''" and "D = KStr (freq self)"
  define kw where "kw = model_kwargs self"
  let ?U = AList.update
  define base where "base x = ?U c C (?U b B (?U a x kw))" for x
  have step: "?U c C (?U b B (?U a (KInt q) (base (KInt p)))) = base (KInt q)"
  proof -
    have 1: "?U a (KInt q) (base (KInt p)) = base (KInt q)"
      unfolding base_def
      by (simp add: update_commute [of a _ _ "KInt q"] ne update_present update_keeps_present)
    have 2: "?U b B (base (KInt q)) = base (KInt q)"
      by (rule update_same) (simp add: base_def update_conv' ne)
    have 3: "?U c C (base (KInt q)) = base (KInt q)"
      by (rule update_same) (simp add: base_def update_conv' ne)
    show ?thesis by (simp add: 1 2 3)
  qed
  have stepd: "?U d D (?U c C (?U b B (?U a (KInt q) (?U d D (base (KInt p)))))) = ?U d D (base (KInt q))"
  proof -
    have 1: "?U a (KInt q) (?U d D (base (KInt p))) = ?U d D (base (KInt q))"
      unfolding base_def
      by (simp add: update_commute [of a _ _ "KInt q"] ne update_present update_keeps_present)
    have 2: "?U b B (?U d D (base (KInt q))) = ?U d D (base (KInt q))"
      by (rule update_same) (simp add: base_def update_conv' ne)
    have 3: "?U c C (?U d D (base (KInt q))) = ?U d D (base (KInt q))"
      by (rule update_same) (simp add: base_def update_conv' ne)
    have 4: "?U d D (?U d D (base (KInt q))) = ?U d D (base (KInt q))"
      by simp
    show ?thesis by (simp add: 1 2 3)
  qed
  show ?thesis
    using step stepd
    by (simp add: fit_options_def Let_def base_def a_def b_def c_def d_def B_def C_def D_def kw_def)
qed

subsection \<open>What the loop body stores\<close>

lemma fit_with_retry_other:
  "g \<noteq> grp \<Longrightarrow> models (fst (fit_with_retry env cls self grp m series)) g = models self g"
  "cutoffs (fst (fit_with_retry env cls self grp m series)) g = cutoffs self g"
  "model_kwargs (fst (fit_with_retry env cls self grp m series)) = model_kwargs self"
  by (simp_all add: fit_with_retry_def Let_def split: option.splits)

lemma fit_with_retry_entry:
  "models self grp \<noteq> None \<Longrightarrow> models (fst (fit_with_retry env cls self grp m series)) grp \<noteq> None"
  by (simp add: fit_with_retry_def Let_def split: option.splits)

lemma fit_group_stored_cases:
  assumes "seasonal_period self grp = Inr sp'"
    and "sk_construct env (build_pipeline env cls self grp (fit_options self sp')) = None"
    and "(if grouped_by self = [''__default''] then df else series_data) = r # rs"
    and "model = build_pipeline env cls self grp (fit_options self sp')"
    and "self' = self\<lparr>model_kwargs := fit_options self sp',
                        models := (models self)(grp \<mapsto> model),
                        cutoffs := (cutoffs self)(grp \<mapsto> index (last (r # rs)))\<rparr>"
  obtains (skipped) "\<not> window (ts_analysis self) < int (length series_data * n_columns env)"
      and "fit_group env cls df self (grp, series_data) = (self', None)"
    | (continued) "window (ts_analysis self) < int (length series_data * n_columns env)"
      and "prepare_series env self' grp series_data (r # rs) sp' = None"
      and "fit_group env cls df self (grp, series_data) = (self', None)"
    | (tried) series where "window (ts_analysis self) < int (length series_data * n_columns env)"
      and "prepare_series env self' grp series_data (r # rs) sp' = Some series"
      and "fit_group env cls df self (grp, series_data)
             = fit_with_retry env cls self' grp model series"
proof (cases "window (ts_analysis self) < int (length series_data * n_columns env)")
  case False
  then show ?thesis using skipped fit_group_Cons [OF assms] by simp
next
  case True
  show ?thesis
  proof (cases "prepare_series env self' grp series_data (r # rs) sp'")
    case None
    then show ?thesis using continued True fit_group_Cons [OF assms] by simp
  next
    case (Some series)
    then show ?thesis using tried True fit_group_Cons [OF assms] by simp
  qed
qed

lemma fit_group_stored:
  assumes "seasonal_period self grp = Inr sp'"
    and "sk_construct env (build_pipeline env cls self grp (fit_options self sp')) = None"
    and "(if grouped_by self = [''__default''] then df else series_data) = r # rs"
  shows "models (fst (fit_group env cls df self (grp, series_data))) grp \<noteq> None"
    and "cutoffs (fst (fit_group env cls df self (grp, series_data))) grp
           = Some (index (last (r # rs)))"
    and "g \<noteq> grp \<Longrightarrow> models (fst (fit_group env cls df self (grp, series_data))) g = models self g"
    and "g \<noteq> grp \<Longrightarrow> cutoffs (fst (fit_group env cls df self (grp, series_data))) g = cutoffs self g"
    and "model_kwargs (fst (fit_group env cls df self (grp, series_data))) = fit_options self sp'"
proof -
  define model where "model = build_pipeline env cls self grp (fit_options self sp')"
  define self' where "self' = self\<lparr>model_kwargs := fit_options self sp',
                        models := (models self)(grp \<mapsto> model),
                        cutoffs := (cutoffs self)(grp \<mapsto> index (last (r # rs)))\<rparr>"
  have m: "models self' grp \<noteq> None" "\<And>g. g \<noteq> grp \<Longrightarrow> models self' g = models self g"
    and c: "cutoffs self' grp = Some (index (last (r # rs)))"
      "\<And>g. g \<noteq> grp \<Longrightarrow> cutoffs self' g = cutoffs self g"
    and k: "model_kwargs self' = fit_options self sp'"
    by (simp_all add: self'_def)
  have "models (fst (fit_group env cls df self (grp, series_data))) grp \<noteq> None
      \<and> cutoffs (fst (fit_group env cls df self (grp, series_data))) grp = Some (index (last (r # rs)))
      \<and> (g \<noteq> grp \<longrightarrow> models (fst (fit_group env cls df self (grp, series_data))) g = models self g)
      \<and> (g \<noteq> grp \<longrightarrow> cutoffs (fst (fit_group env cls df self (grp, series_data))) g = cutoffs self g)
      \<and> model_kwargs (fst (fit_group env cls df self (grp, series_data))) = fit_options self sp'"
    using assms model_def self'_def
  proof (cases rule: fit_group_stored_cases)
    case skipped
    then show ?thesis using m c k by simp
  next
    case continued
    then show ?thesis using m c k by simp
  next
    case (tried series)
    show ?thesis unfolding tried(3) using m c k
      by (simp add: fit_with_retry_other fit_with_retry_entry)
  qed
  then show "models (fst (fit_group env cls df self (grp, series_data))) grp \<noteq> None"
    and "cutoffs (fst (fit_group env cls df self (grp, series_data))) grp
           = Some (index (last (r # rs)))"
    and "g \<noteq> grp \<Longrightarrow> models (fst (fit_group env cls df self (grp, series_data))) g = models self g"
    and "g \<noteq> grp \<Longrightarrow> cutoffs (fst (fit_group env cls df self (grp, series_data))) g = cutoffs self g"
    and "model_kwargs (fst (fit_group env cls df self (grp, series_data))) = fit_options self sp'"
    by blast+
qed

lemma fit_group_other:
  assumes "g \<noteq> fst x"
  shows "models (fst (fit_group env cls df self x)) g = models self g
         \<and> cutoffs (fst (fit_group env cls df self x)) g = cutoffs self g"
proof -
  obtain grp series_data where x: "x = (grp, series_data)" by (cases x)
  have ne: "g \<noteq> grp" using assms x by simp
  show ?thesis
  proof (cases rule: fit_group_cases [of self grp env cls df series_data])
    case (period e)
    then show ?thesis by (simp add: x)
  next
    case (construct sp' e)
    then show ?thesis by (simp add: x)
  next
    case (empty sp')
    then show ?thesis using ne by (simp add: x)
  next
    case (stored sp' r rs)
    show ?thesis using fit_group_stored(3,4) [OF stored ne] by (simp add: x)
  qed
qed

lemma fit_group_keeps_entry:
  "(models self g \<noteq> None \<longrightarrow> models (fst (fit_group env cls df self x)) g \<noteq> None)
   \<and> (cutoffs self g \<noteq> None \<longrightarrow> cutoffs (fst (fit_group env cls df self x)) g \<noteq> None)"
proof (cases "g = fst x")
  case False
  then show ?thesis using fit_group_other [of g x env cls df self] by simp
next
  case True
  obtain grp series_data where x: "x = (grp, series_data)" by (cases x)
  show ?thesis
  proof (cases rule: fit_group_cases [of self grp env cls df series_data])
    case (period e)
    then show ?thesis by (simp add: x)
  next
    case (construct sp' e)
    then show ?thesis by (simp add: x)
  next
    case (empty sp')
    then show ?thesis using True by (simp add: x)
  next
    case (stored sp' r rs)
    show ?thesis using fit_group_stored(1,2) [OF stored] True by (simp add: x)
  qed
qed

lemma fit_groups_other:
  "g \<notin> fst ` set gs \<Longrightarrow>
     models (fst (fit_groups env cls df self gs)) g = models self g
     \<and> cutoffs (fst (fit_groups env cls df self gs)) g = cutoffs self g"
proof (induction gs arbitrary: self)
  case Nil
  then show ?case by simp
next
  case (Cons x gs)
  obtain s r where xr: "fit_group env cls df self x = (s, r)" by (cases "fit_group env cls df self x")
  have o: "models s g = models self g \<and> cutoffs s g = cutoffs self g"
    using fit_group_other [of g x env cls df self] Cons.prems xr by simp
  show ?case
  proof (cases r)
    case None
    then show ?thesis using xr o Cons.IH [of s] Cons.prems by simp
  next
    case (Some e)
    then show ?thesis using xr o by simp
  qed
qed

lemma fit_groups_keeps_entry:
  "(models self g \<noteq> None \<longrightarrow> models (fst (fit_groups env cls df self gs)) g \<noteq> None)
   \<and> (cutoffs self g \<noteq> None \<longrightarrow> cutoffs (fst (fit_groups env cls df self gs)) g \<noteq> None)"
proof (induction gs arbitrary: self)
  case Nil
  then show ?case by simp
next
  case (Cons x gs)
  obtain s r where xr: "fit_group env cls df self x = (s, r)" by (cases "fit_group env cls df self x")
  have k: "(models self g \<noteq> None \<longrightarrow> models s g \<noteq> None) \<and> (cutoffs self g \<noteq> None \<longrightarrow> cutoffs s g \<noteq> None)"
    using fit_group_keeps_entry [of self g env cls df x] xr by simp
  show ?case
  proof (cases r)
    case None
    then show ?thesis using xr k Cons.IH [of s] by simp
  next
    case (Some e)
    then show ?thesis using xr k by simp
  qed
qed

subsection \<open>The entry that a pass writes\<close>

lemma outside_registry_settings:
  assumes "outside_registry a = outside_registry b"
  shows "sp a = sp b" and "use_stl a = use_stl b" and "auto_size a = auto_size b"
    and "cutoff_factor a = cutoff_factor b" and "freq a = freq b"
proof -
  have f: "\<And>s. sp s = sp (outside_registry s)"
    "\<And>s. use_stl s = use_stl (outside_registry s)"
    "\<And>s. auto_size s = auto_size (outside_registry s)"
    "\<And>s. cutoff_factor s = cutoff_factor (outside_registry s)"
    "\<And>s. freq s = freq (outside_registry s)"
    by (simp_all add: outside_registry_def)
  show "sp a = sp b" using f(1) [of a] f(1) [of b] assms by simp
  show "use_stl a = use_stl b" using f(2) [of a] f(2) [of b] assms by simp
  show "auto_size a = auto_size b" using f(3) [of a] f(3) [of b] assms by simp
  show "cutoff_factor a = cutoff_factor b" using f(4) [of a] f(4) [of b] assms by simp
  show "freq a = freq b" using f(5) [of a] f(5) [of b] assms by simp
qed

lemma outside_registry_transfer:
  assumes "outside_registry s = outside_registry self"
  shows "seasonal_period s = seasonal_period self"
    and "build_pipeline env cls s = build_pipeline env cls self"
    and "prepare_series env s = prepare_series env self"
    and "grouped_by s = grouped_by self"
    and "ts_analysis s = ts_analysis self"
proof -
  note e = outside_registry_eqD [OF assms] outside_registry_settings [OF assms]
  show "seasonal_period s = seasonal_period self"
    unfolding seasonal_period_def fun_eq_iff e by simp
  show "build_pipeline env cls s = build_pipeline env cls self"
    unfolding build_pipeline_def fun_eq_iff e by simp
  show "prepare_series env s = prepare_series env self"
    unfolding prepare_series_def fun_eq_iff e by simp
  show "grouped_by s = grouped_by self" by (rule e)
  show "ts_analysis s = ts_analysis self" by (rule e)
qed

lemma fit_options_cong:
  assumes "model_kwargs a = model_kwargs b" and "outside_registry a = outside_registry b"
  shows "fit_options a = fit_options b"
  unfolding fit_options_def fun_eq_iff assms(1) outside_registry_eqD(8) [OF assms(2)]
    outside_registry_settings(5) [OF assms(2)] by simp

lemma written_forecaster_transfer:
  assumes "outside_registry s = outside_registry self"
    and "\<And>q. fit_options s q = fit_options self q"
  shows "written_forecaster env cls s df grp sd m = written_forecaster env cls self df grp sd m"
  unfolding written_forecaster_def outside_registry_transfer [OF assms(1)] assms(2) by (rule refl)

lemma fit_group_written:
  assumes "snd (fit_group env cls df self (grp, sd)) = None"
  shows "cutoffs (fst (fit_group env cls df self (grp, sd))) grp
           = Some (index (last (if grouped_by self = [''__default''] then df else sd)))
         \<and> (\<exists>m. models (fst (fit_group env cls df self (grp, sd))) grp = Some m
                  \<and> written_forecaster env cls self df grp sd m)"
proof (cases rule: fit_group_cases [of self grp env cls df sd])
  case (period e)
  then show ?thesis using assms by simp
next
  case (construct sp' e)
  then show ?thesis using assms by simp
next
  case (empty sp')
  then show ?thesis using assms by simp
next
  case (stored sp' r rs)
  define model where "model = build_pipeline env cls self grp (fit_options self sp')"
  define self' where "self' = self\<lparr>model_kwargs := fit_options self sp',
                        models := (models self)(grp \<mapsto> model),
                        cutoffs := (cutoffs self)(grp \<mapsto> index (last (r # rs)))\<rparr>"
  have o: "outside_registry self' = outside_registry self" by (simp add: self'_def)
  have p: "prepare_series env self' = prepare_series env self"
    by (rule outside_registry_transfer(3) [OF o])
  have ms: "models self' grp = Some model" by (simp add: self'_def)
  have c: "cutoffs (fst (fit_group env cls df self (grp, sd))) grp
             = Some (index (last (if grouped_by self = [''__default''] then df else sd)))"
    using fit_group_stored(2) [OF stored] stored(3) by simp
  have w: "written_forecaster env cls self df grp sd m =
             (if window (ts_analysis self) < int (length sd * n_columns env)
              then (case prepare_series env self grp sd (r # rs) sp' of
                      None \<Rightarrow> m = model
                    | Some series \<Rightarrow>
                        sk_fit env model series = None \<and> m = model\<lparr>fitted_y := Some (snd series)\<rparr>
                        \<or> sk_fit env model series \<noteq> None
                          \<and> sk_construct env (default_forecaster cls) = None
                          \<and> sk_fit env (default_forecaster cls) series = None
                          \<and> m = (default_forecaster cls)\<lparr>fitted_y := Some (snd series)\<rparr>)
              else m = model)" for m
    unfolding model_def written_forecaster_def Let_def using stored by simp
  have "\<exists>m. models (fst (fit_group env cls df self (grp, sd))) grp = Some m
             \<and> written_forecaster env cls self df grp sd m"
    using stored model_def self'_def
  proof (cases rule: fit_group_stored_cases)
    case skipped
    then show ?thesis using ms w by simp
  next
    case continued
    then show ?thesis using ms w p by simp
  next
    case (tried series)
    have ok: "snd (fit_with_retry env cls self' grp model series) = None"
      using assms tried(3) by simp
    then have "\<exists>m. models (fst (fit_with_retry env cls self' grp model series)) grp = Some m
        \<and> (sk_fit env model series = None \<and> m = model\<lparr>fitted_y := Some (snd series)\<rparr>
           \<or> sk_fit env model series \<noteq> None
             \<and> sk_construct env (default_forecaster cls) = None
             \<and> sk_fit env (default_forecaster cls) series = None
             \<and> m = (default_forecaster cls)\<lparr>fitted_y := Some (snd series)\<rparr>)"
      by (simp add: fit_with_retry_def Let_def split: option.splits)
    then show ?thesis using tried p w by simp
  qed
  then show ?thesis using c by simp
qed

lemma fit_group_options:
  "(\<forall>q. fit_options (fst (fit_group env cls df self x)) q = fit_options self q)"
proof -
  obtain grp sd where x: "x = (grp, sd)" by (cases x)
  have o: "outside_registry (fst (fit_group env cls df self x)) = outside_registry self"
    by (rule fit_group_frame)
  have again: "fit_options (fst (fit_group env cls df self x)) = fit_options self"
    if "model_kwargs (fst (fit_group env cls df self x)) = fit_options self p" for p
  proof -
    have "fit_options (fst (fit_group env cls df self x))
            = fit_options (self\<lparr>model_kwargs := fit_options self p\<rparr>)"
      using that o by (intro fit_options_cong) simp_all
    then show ?thesis using fit_options_again [of self p] by (simp add: fun_eq_iff)
  qed
  show ?thesis
  proof (cases rule: fit_group_cases [of self grp env cls df sd])
    case (period e)
    then show ?thesis by (simp add: x)
  next
    case (construct sp' e)
    then show ?thesis using again [of sp'] by (simp add: x)
  next
    case (empty sp')
    then show ?thesis using again [of sp'] by (simp add: x)
  next
    case (stored sp' r rs)
    show ?thesis using again [of sp'] fit_group_stored(5) [OF stored] by (simp add: x)
  qed
qed

lemma fit_groups_written:
  "distinct (map fst gs) \<Longrightarrow> (grp, sd) \<in> set gs
     \<Longrightarrow> outside_registry s = outside_registry self
     \<Longrightarrow> (\<forall>q. fit_options s q = fit_options self q)
     \<Longrightarrow> snd (fit_groups env cls df s gs) = None
     \<Longrightarrow> cutoffs (fst (fit_groups env cls df s gs)) grp
           = Some (index (last (if grouped_by self = [''__default''] then df else sd)))
         \<and> (\<exists>m. models (fst (fit_groups env cls df s gs)) grp = Some m
                  \<and> written_forecaster env cls self df grp sd m)"
proof (induction gs arbitrary: s)
  case Nil
  then show ?case by simp
next
  case (Cons x gs)
  obtain s1 r where xr: "fit_group env cls df s x = (s1, r)" by (cases "fit_group env cls df s x")
  have r: "r = None" using Cons.prems(5) xr by (cases r) simp_all
  have eq: "fit_groups env cls df s (x # gs) = fit_groups env cls df s1 gs" using xr r by simp
  have o1: "outside_registry s1 = outside_registry self"
    using fit_group_frame [of env cls df s x] xr Cons.prems(3) by simp
  have f1: "\<forall>q. fit_options s1 q = fit_options self q"
    using fit_group_options [of env cls df s x] xr Cons.prems(4) by simp
  show ?case
  proof (cases "x = (grp, sd)")
    case True
    have "snd (fit_group env cls df s (grp, sd)) = None" using xr r True by simp
    from fit_group_written [OF this]
    have "cutoffs s1 grp = Some (index (last (if grouped_by s = [''__default''] then df else sd)))"
      and "\<exists>m. models s1 grp = Some m \<and> written_forecaster env cls s df grp sd m"
      using xr True by simp_all
    moreover have "grouped_by s = grouped_by self"
      by (rule outside_registry_transfer(4) [OF Cons.prems(3)])
    moreover have "written_forecaster env cls s df grp sd m = written_forecaster env cls self df grp sd m" for m
      using written_forecaster_transfer [OF Cons.prems(3)] Cons.prems(4) by simp
    moreover have "grp \<notin> fst ` set gs" using Cons.prems(1) True by auto
    ultimately show ?thesis unfolding eq using fit_groups_other [of grp gs env cls df s1] by simp
  next
    case False
    have "distinct (map fst gs)" using Cons.prems(1) by simp
    moreover have "(grp, sd) \<in> set gs" using False Cons.prems(2) by simp
    moreover have "snd (fit_groups env cls df s1 gs) = None" using Cons.prems(5) eq by simp
    ultimately show ?thesis unfolding eq using Cons.IH [of s1] o1 f1 by blast
  qed
qed

subsection \<open>The groups of a frame\<close>

lemma map_fst_groupby: "map fst (groupby key xs) = sort (remdups (List.map_filter key xs))"
  by (simp add: groupby_def comp_def)

lemma distinct_grouped: "distinct (map fst (grouped gby key xs))"
  by (simp add: grouped_def map_fst_groupby groupby_default_def)

lemma set_map_filter_key: "set (List.map_filter key xs) = {k. \<exists>x\<in>set xs. key x = Some k}"
  by (force simp: List.map_filter_def image_iff)

lemma keys_grouped:
  "fst ` set (grouped gby key xs) =
     (if gby \<noteq> [] then {k. \<exists>x\<in>set xs. key x = Some k}
      else if xs = [] then {} else {''__default''})"
proof -
  have "fst ` set (groupby key xs) = {k. \<exists>x\<in>set xs. key x = Some k}"
    using map_fst_groupby [of key xs] set_map_filter_key [of key xs]
    by (metis list.set_map set_remdups set_sort)
  then show ?thesis by (simp add: grouped_def groupby_default_def)
qed

lemma groups_of_set: "set a = set b \<Longrightarrow> groups_of self a = groups_of self b"
proof -
  assume s: "set a = set b"
  then have "(a = []) = (b = [])" by (metis set_empty)
  then show ?thesis using s by (simp add: groups_of_def keys_grouped)
qed

lemma groups_of_append: "groups_of self tr \<subseteq> groups_of self (tr @ dv)"
  by (auto simp: groups_of_def keys_grouped)

subsection \<open>The registry after \<open>_fit\<close> and \<open>fit\<close>\<close>

lemma fit_inner_other:
  assumes "g \<notin> groups_of self (sort_values env mdb_original_oby data)"
  shows "models (fst (fit_inner env self data)) g = models self g
         \<and> cutoffs (fst (fit_inner env self data)) g = cutoffs self g"
proof -
  have "g \<notin> fst ` set (grouped (group_by (ts_analysis self)) group_key
                          (sort_values env mdb_original_oby data))"
    using assms by (simp add: groups_of_def)
  then show ?thesis
    by (simp add: fit_inner_def Let_def fit_groups_other split: sum.splits)
qed

lemma fit_inner_keeps_entry:
  "(models self g \<noteq> None \<longrightarrow> models (fst (fit_inner env self data)) g \<noteq> None)
   \<and> (cutoffs self g \<noteq> None \<longrightarrow> cutoffs (fst (fit_inner env self data)) g \<noteq> None)"
  using fit_groups_keeps_entry [of self g env]
  by (simp add: fit_inner_def Let_def split: sum.splits)

lemma fit_inner_written:
  assumes "fit_inner env self data = (self', None)"
    and "select_module_name self = Inr name" and "resolve_model_class env name = Inr cls"
    and "(grp, sd) \<in> set (grouped (group_by (ts_analysis self)) group_key
                             (sort_values env mdb_original_oby data))"
  shows "cutoffs self' grp
           = Some (index (last (if grouped_by self = [''__default'']
                                then sort_values env mdb_original_oby data else sd)))
         \<and> (\<exists>m. models self' grp = Some m
                  \<and> written_forecaster env cls self (sort_values env mdb_original_oby data)
                       grp sd m)"
proof -
  let ?df = "sort_values env mdb_original_oby data"
  let ?gs = "grouped (group_by (ts_analysis self)) group_key ?df"
  have eq: "fit_inner env self data = fit_groups env cls ?df self ?gs"
    using assms(2,3) by (simp add: fit_inner_def Let_def)
  have ok: "snd (fit_groups env cls ?df self ?gs) = None"
    and s': "self' = fst (fit_groups env cls ?df self ?gs)"
    using assms(1) eq by simp_all
  show ?thesis unfolding s'
    using fit_groups_written [OF distinct_grouped assms(4) refl _ ok] by simp
qed

lemma get_best_model_other:
  assumes "g \<notin> groups_of self (sort_values env mdb_original_oby train_data)"
  shows "models (fst (get_best_model env self c train_data test_data)) g = models self g
         \<and> cutoffs (fst (get_best_model env self c train_data test_data)) g = cutoffs self g"
proof -
  have "g \<notin> groups_of (self\<lparr>hyperparam_dict := [''class'' \<mapsto> c]\<rparr>)
               (sort_values env mdb_original_oby train_data)"
    using assms by (simp add: groups_of_def)
  from fit_inner_other [OF this] show ?thesis by (simp add: get_best_model_fst)
qed

lemma optimize_other:
  "g \<notin> groups_of self (sort_values env mdb_original_oby train_data) \<Longrightarrow>
     models (optimize env train_data dev_data self cs) g = models self g
     \<and> cutoffs (optimize env train_data dev_data self cs) g = cutoffs self g"
proof (induction cs arbitrary: self)
  case Nil
  then show ?case by simp
next
  case (Cons c cs)
  let ?self1 = "self\<lparr>study := map_option (\<lambda>s. s @ [\<lparr>params_class = c, trial_state = Running,
                    trial_value = Infinite\<rparr>]) (study self)\<rparr>"
  obtain self2 err where gb: "get_best_model env ?self1 c train_data dev_data = (self2, err)"
    by (cases "get_best_model env ?self1 c train_data dev_data")
  let ?self3 = "self2\<lparr>study := map_option (complete_last err) (study self2)\<rparr>"
  have g1: "g \<notin> groups_of ?self1 (sort_values env mdb_original_oby train_data)"
    using Cons.prems by (simp add: groups_of_def)
  have o: "models self2 g = models self g \<and> cutoffs self2 g = cutoffs self g"
    using get_best_model_other [OF g1, of c dev_data] gb by simp
  have "ts_analysis self2 = ts_analysis self"
    using get_best_model_keeps(6) [of env ?self1 c train_data dev_data] gb by simp
  then have g3: "g \<notin> groups_of ?self3 (sort_values env mdb_original_oby train_data)"
    using Cons.prems by (simp add: groups_of_def)
  have "optimize env train_data dev_data self (c # cs) = optimize env train_data dev_data ?self3 cs"
    using gb by (simp add: Let_def)
  then show ?case using Cons.IH [OF g3] o by simp
qed

lemma optimize_ts_analysis:
  "ts_analysis (optimize env train_data dev_data self cs) = ts_analysis self"
  by (induction cs arbitrary: self) (simp_all add: Let_def split_def get_best_model_keeps)

lemma optimize_keeps_entry:
  "(models self g \<noteq> None \<longrightarrow> models (optimize env train_data dev_data self cs) g \<noteq> None)
   \<and> (cutoffs self g \<noteq> None \<longrightarrow> cutoffs (optimize env train_data dev_data self cs) g \<noteq> None)"
proof (induction cs arbitrary: self)
  case Nil
  then show ?case by simp
next
  case (Cons c cs)
  let ?self1 = "self\<lparr>study := map_option (\<lambda>s. s @ [\<lparr>params_class = c, trial_state = Running,
                    trial_value = Infinite\<rparr>]) (study self)\<rparr>"
  obtain self2 err where gb: "get_best_model env ?self1 c train_data dev_data = (self2, err)"
    by (cases "get_best_model env ?self1 c train_data dev_data")
  let ?self3 = "self2\<lparr>study := map_option (complete_last err) (study self2)\<rparr>"
  have k: "(models self g \<noteq> None \<longrightarrow> models self2 g \<noteq> None)
           \<and> (cutoffs self g \<noteq> None \<longrightarrow> cutoffs self2 g \<noteq> None)"
    using fit_inner_keeps_entry [of "?self1\<lparr>hyperparam_dict := [''class'' \<mapsto> c]\<rparr>" g env train_data]
      get_best_model_fst [of env ?self1 c train_data dev_data] gb by simp
  have "optimize env train_data dev_data self (c # cs) = optimize env train_data dev_data ?self3 cs"
    using gb by (simp add: Let_def)
  then show ?case using Cons.IH [of ?self3] k by simp
qed

text \<open>The mixer that the last pass of \<open>fit\<close> starts from.\<close>

lemma fit_ends_with_fit_inner:
  "\<exists>self2. fit env self train_data dev_data = fit_inner env self2 (train_data @ dev_data)
     \<and> ts_analysis self2 = ts_analysis self
     \<and> (\<forall>g. g \<notin> groups_of self (sort_values env mdb_original_oby train_data) \<longrightarrow>
            models self2 g = models self g \<and> cutoffs self2 g = cutoffs self g)
     \<and> (\<forall>g. (models self g \<noteq> None \<longrightarrow> models self2 g \<noteq> None)
            \<and> (cutoffs self g \<noteq> None \<longrightarrow> cutoffs self2 g \<noteq> None))"
proof (cases "hyperparam_search self")
  case False
  then have "fit env self train_data dev_data = fit_inner env self (train_data @ dev_data)"
    by (simp add: fit_def)
  then show ?thesis by blast
next
  case True
  define self1 where "self1 = self\<lparr>study := Some []\<rparr>"
  define self2 where "self2 = optimize env train_data dev_data self1
                                (take (n_trials self1) (grid_order env (possible_models self1)))"
  have eq: "fit env self train_data dev_data = fit_inner env self2 (train_data @ dev_data)"
    using True by (simp add: fit_def self1_def self2_def Let_def)
  have ts: "ts_analysis self2 = ts_analysis self"
    by (simp add: self2_def optimize_ts_analysis self1_def)
  have a: "models self2 g = models self g \<and> cutoffs self2 g = cutoffs self g"
    if "g \<notin> groups_of self (sort_values env mdb_original_oby train_data)" for g
  proof -
    have "g \<notin> groups_of self1 (sort_values env mdb_original_oby train_data)"
      using that by (simp add: groups_of_def self1_def)
    from optimize_other [OF this, of dev_data] show ?thesis
      by (simp add: self2_def self1_def)
  qed
  have k: "(models self g \<noteq> None \<longrightarrow> models self2 g \<noteq> None)
           \<and> (cutoffs self g \<noteq> None \<longrightarrow> cutoffs self2 g \<noteq> None)" for g
    using optimize_keeps_entry [of self1 g env train_data dev_data] by (simp add: self2_def self1_def)
  show ?thesis using eq ts a k by blast
qed

subsection \<open>The registry over successive fits\<close>

text \<open>
  Claim C5 as the specification states it fails: the registry is the pair of
  dictionaries made by the constructor, and \<open>_fit\<close> assigns into them. A first fit sees
  the groups A and B; a second fit on later rows of A alone succeeds and the entry of B
  is still there, as the first fit left it.
\<close>

theorem earlier_entry_survives_example:
  "models example_mixer ''B'' = None
   \<and> ''B'' \<in> groups_of example_mixer example_train
   \<and> snd (fit example_env example_mixer example_train []) = None
   \<and> ''B'' \<notin> groups_of example_trained_mixer example_later
   \<and> snd (fit example_env example_trained_mixer example_later []) = None
   \<and> models (fst (fit example_env example_trained_mixer example_later [])) ''B''
       = models example_trained_mixer ''B''
   \<and> models (fst (fit example_env example_trained_mixer example_later [])) ''B'' \<noteq> None"
proof -
  have g: "''B'' \<in> groups_of example_mixer example_train"
    "''B'' \<notin> groups_of example_trained_mixer example_later"
    by code_simp+
  have "models example_mixer ''B'' = None" by (simp add: example_mixer_def)
  moreover have "snd (fit example_env example_mixer example_train []) = None" by code_simp
  moreover have "snd (fit example_env example_trained_mixer example_later []) = None" by code_simp
  moreover have "models (fst (fit example_env example_trained_mixer example_later [])) ''B''
       = models example_trained_mixer ''B''" by code_simp
  moreover have "models (fst (fit example_env example_trained_mixer example_later [])) ''B'' \<noteq> None"
    by code_simp
  ultimately show ?thesis using g by simp
qed

text \<open>
  Claim C5, amended. Where sorting a frame keeps its rows: \<open>fit\<close> leaves the forecaster
  and the cutoff of every group that its data (training and held-out rows together)
  does not contain as they were, and removes no forecaster and no cutoff; it ends with a
  pass of \<open>_fit\<close> over the concatenated frames. A pass of \<open>_fit\<close> that succeeds writes,
  for every group of its sorted frame, the index of the last row of the group (of the
  whole frame when the mixer has no group-by) as cutoff and, as forecaster, the pipeline
  of the class resolved in this pass with the options of this pass, unfitted when the
  group is skipped and fitted on the group's prepared series otherwise, or the bare
  instance of the class fitted on that series when the pipeline's \<open>fit\<close> raised.
\<close>

theorem fit_overwrites_only_observed_groups:
  assumes "\<And>xs. set (sort_values env mdb_original_oby xs) = set xs"
  shows "(g \<notin> groups_of self (train_data @ dev_data) \<longrightarrow>
            models (fst (fit env self train_data dev_data)) g = models self g
            \<and> cutoffs (fst (fit env self train_data dev_data)) g = cutoffs self g)
         \<and> (models self g \<noteq> None \<longrightarrow> models (fst (fit env self train_data dev_data)) g \<noteq> None)
         \<and> (cutoffs self g \<noteq> None \<longrightarrow> cutoffs (fst (fit env self train_data dev_data)) g \<noteq> None)
         \<and> (\<exists>self2. fit env self train_data dev_data = fit_inner env self2 (train_data @ dev_data)
               \<and> ts_analysis self2 = ts_analysis self)
         \<and> (fit_inner env self data = (self', None)
              \<and> select_module_name self = Inr name \<and> resolve_model_class env name = Inr cls
              \<and> (grp, sd) \<in> set (grouped (group_by (ts_analysis self)) group_key
                                     (sort_values env mdb_original_oby data)) \<longrightarrow>
              cutoffs self' grp
                = Some (index (last (if grouped_by self = [''__default'']
                                     then sort_values env mdb_original_oby data else sd)))
              \<and> (\<exists>m. models self' grp = Some m
                       \<and> written_forecaster env cls self (sort_values env mdb_original_oby data)
                            grp sd m))"
proof -
  obtain self2 where eq: "fit env self train_data dev_data = fit_inner env self2 (train_data @ dev_data)"
    and ts: "ts_analysis self2 = ts_analysis self"
    and o: "\<And>g. g \<notin> groups_of self (sort_values env mdb_original_oby train_data) \<Longrightarrow>
              models self2 g = models self g \<and> cutoffs self2 g = cutoffs self g"
    and k: "\<And>g. (models self g \<noteq> None \<longrightarrow> models self2 g \<noteq> None)
              \<and> (cutoffs self g \<noteq> None \<longrightarrow> cutoffs self2 g \<noteq> None)"
    using fit_ends_with_fit_inner [of env self train_data dev_data] by blast
  have gs: "groups_of self2 d = groups_of self d" for d
    using ts by (simp add: groups_of_def)
  have sorted: "groups_of self (sort_values env mdb_original_oby d) = groups_of self d" for d
    by (rule groups_of_set) (rule assms)
  have a: "models (fst (fit env self train_data dev_data)) g = models self g
           \<and> cutoffs (fst (fit env self train_data dev_data)) g = cutoffs self g"
    if n: "g \<notin> groups_of self (train_data @ dev_data)"
  proof -
    have "g \<notin> groups_of self train_data"
      using n groups_of_append [of self train_data dev_data] by auto
    then have 1: "models self2 g = models self g \<and> cutoffs self2 g = cutoffs self g"
      using o [of g] sorted by simp
    have "g \<notin> groups_of self2 (sort_values env mdb_original_oby (train_data @ dev_data))"
      using n gs sorted ts by (simp add: groups_of_def)
    from fit_inner_other [OF this] 1 show ?thesis unfolding eq by simp
  qed
  have b: "(models self g \<noteq> None \<longrightarrow> models (fst (fit env self train_data dev_data)) g \<noteq> None)
           \<and> (cutoffs self g \<noteq> None \<longrightarrow> cutoffs (fst (fit env self train_data dev_data)) g \<noteq> None)"
    unfolding eq using k [of g] fit_inner_keeps_entry [of self2 g env "train_data @ dev_data"] by blast
  have c: "cutoffs self' grp
             = Some (index (last (if grouped_by self = [''__default'']
                                  then sort_values env mdb_original_oby data else sd)))
           \<and> (\<exists>m. models self' grp = Some m
                    \<and> written_forecaster env cls self (sort_values env mdb_original_oby data)
                         grp sd m)"
    if "fit_inner env self data = (self', None)" "select_module_name self = Inr name"
      "resolve_model_class env name = Inr cls"
      "(grp, sd) \<in> set (grouped (group_by (ts_analysis self)) group_key
                           (sort_values env mdb_original_oby data))"
    using that by (rule fit_inner_written)
  show ?thesis using a b c eq ts by blast
qed

text \<open>
  From the registry that a fit on the groups A and B has filled, a fit on later rows of
  A alone: the entries of B stay as they were, the cutoff of A moves from day 10 to day
  14 and the forecaster of A is the one written by this pass.
\<close>

theorem fit_overwrites_only_observed_groups_witness:
  "''B'' \<notin> groups_of example_trained_mixer (example_later @ [])
   \<and> models example_trained_mixer ''B'' \<noteq> None
   \<and> models (fst (fit example_env example_trained_mixer example_later [])) ''B''
       = models example_trained_mixer ''B''
   \<and> cutoffs (fst (fit example_env example_trained_mixer example_later [])) ''B''
       = cutoffs example_trained_mixer ''B''
   \<and> cutoffs example_trained_mixer ''A'' = Some (10 * 86400000000000)
   \<and> snd (fit_inner example_env example_trained_mixer example_later) = None
   \<and> cutoffs (fst (fit_inner example_env example_trained_mixer example_later)) ''A''
       = Some (14 * 86400000000000)
   \<and> (\<exists>m. models (fst (fit_inner example_env example_trained_mixer example_later)) ''A'' = Some m
         \<and> written_forecaster example_env (SktimeClass ''trend'' ''STLForecaster'')
              example_trained_mixer (sort_values example_env mdb_original_oby example_later)
              ''A'' example_later m)"
proof -
  let ?cls = "SktimeClass ''trend'' ''STLForecaster''"
  let ?self' = "fst (fit_inner example_env example_trained_mixer example_later)"
  have h_sort: "\<And>xs. set (sort_values example_env mdb_original_oby xs) = set xs"
    by (simp add: example_env_def)
  have h_b: "''B'' \<notin> groups_of example_trained_mixer (example_later @ [])" by code_simp
  have s: "snd (fit_inner example_env example_trained_mixer example_later) = None" by code_simp
  have h_fit: "fit_inner example_env example_trained_mixer example_later = (?self', None)"
    using s by (metis surjective_pairing)
  have h_name: "select_module_name example_trained_mixer = Inr ''trend.STLForecaster''"
    by code_simp
  have h_cls: "resolve_model_class example_env ''trend.STLForecaster'' = Inr ?cls" by code_simp
  have h_mem: "(''A'', example_later) \<in> set (grouped (group_by (ts_analysis example_trained_mixer))
                  group_key (sort_values example_env mdb_original_oby example_later))"
    by code_simp
  have before: "models example_trained_mixer ''B'' \<noteq> None"
    "cutoffs example_trained_mixer ''A'' = Some (10 * 86400000000000)"
    by code_simp+
  have last: "index (last (if grouped_by example_trained_mixer = [''__default'']
                           then sort_values example_env mdb_original_oby example_later
                           else example_later)) = 14 * 86400000000000"
    by code_simp
  note t = fit_overwrites_only_observed_groups
             [OF h_sort, of "''B''" example_trained_mixer example_later "[]" example_later ?self'
                "''trend.STLForecaster''" ?cls "''A''" example_later]
  have 1: "models (fst (fit example_env example_trained_mixer example_later [])) ''B''
             = models example_trained_mixer ''B''
           \<and> cutoffs (fst (fit example_env example_trained_mixer example_later [])) ''B''
             = cutoffs example_trained_mixer ''B''"
    using t h_b by blast
  have 2: "cutoffs ?self' ''A'' = Some (14 * 86400000000000)
           \<and> (\<exists>m. models ?self' ''A'' = Some m
                 \<and> written_forecaster example_env ?cls example_trained_mixer
                      (sort_values example_env mdb_original_oby example_later) ''A'' example_later m)"
    using t h_fit h_name h_cls h_mem last by simp
  show ?thesis using h_b before 1 2 s by simp
qed

subsection \<open>A group under the window\<close>

lemma written_forecaster_skipped:
  assumes "written_forecaster env cls self df grp sd m"
    and "\<not> window (ts_analysis self) < int (length sd * n_columns env)"
  shows "\<not> is_fitted m"
  using assms by (auto simp: written_forecaster_def Let_def is_fitted_def build_pipeline_def)

lemma call_group_unfitted:
  assumes "models self grp = Some m" and "\<not> is_fitted m"
  shows "call_group env self ydf (grp, first # rest) =
           call_default self ydf (NdArray (map (\<lambda>(i, r). target r) (first # rest)))
             (map fst (first # rest))"
proof -
  have a: "snd \<circ> (\<lambda>(i, r). (i, target r)) = (\<lambda>(i :: nat, r). target r)"
    and b: "fst \<circ> (\<lambda>(i :: nat, r). (i, target r)) = fst"
    by (auto simp: fun_eq_iff)
  show ?thesis
    using assms by (cases first) (simp add: call_group_def Let_def a b)
qed

lemma optimize_grouped_by:
  "grouped_by (optimize env train_data dev_data self cs) = grouped_by self"
  by (induction cs arbitrary: self)
     (simp_all add: Let_def split_def get_best_model_fst fit_inner_keeps(10))

lemma fit_last_pass:
  "\<exists>self2. fit env self train_data dev_data = fit_inner env self2 (train_data @ dev_data)
     \<and> ts_analysis self2 = ts_analysis self \<and> grouped_by self2 = grouped_by self"
proof (cases "hyperparam_search self")
  case False
  then have "fit env self train_data dev_data = fit_inner env self (train_data @ dev_data)"
    by (simp add: fit_def)
  then show ?thesis by blast
next
  case True
  define self1 where "self1 = self\<lparr>study := Some []\<rparr>"
  define self2 where "self2 = optimize env train_data dev_data self1
                                (take (n_trials self1) (grid_order env (possible_models self1)))"
  have "fit env self train_data dev_data = fit_inner env self2 (train_data @ dev_data)"
    using True by (simp add: fit_def self1_def self2_def Let_def)
  moreover have "ts_analysis self2 = ts_analysis self"
    by (simp add: self2_def optimize_ts_analysis self1_def)
  moreover have "grouped_by self2 = grouped_by self"
    by (simp add: self2_def optimize_grouped_by self1_def)
  ultimately show ?thesis by blast
qed

text \<open>
  C4, as the code has it: after a fit that returns, a group of the fitted frame that the
  lookback test skips (its frame's size does not exceed the window) has a forecaster in
  the registry, the unfitted pipeline, and a cutoff, the index of the last row that the
  pass reads for it; since the stored forecaster is not fitted, \<open>__call__\<close> answers the
  group's rows with the fallback forecast.
\<close>

theorem skipped_group_has_unfitted_entry:
  assumes "fit env self train_data dev_data = (self', None)"
    and "(grp, sd) \<in> set (grouped (group_by (ts_analysis self)) group_key
                             (sort_values env mdb_original_oby (train_data @ dev_data)))"
    and "\<not> window (ts_analysis self) < int (length sd * n_columns env)"
  shows "(\<exists>m. models self' grp = Some m \<and> \<not> is_fitted m)
         \<and> cutoffs self' grp
             = Some (index (last (if grouped_by self = [''__default'']
                                  then sort_values env mdb_original_oby (train_data @ dev_data)
                                  else sd)))
         \<and> call_group env self' ydf (grp, first # rest) =
             call_default self' ydf (NdArray (map (\<lambda>(i, r). target r) (first # rest)))
               (map fst (first # rest))"
proof -
  obtain self2 where eq: "fit env self train_data dev_data = fit_inner env self2 (train_data @ dev_data)"
    and ts: "ts_analysis self2 = ts_analysis self" and gb: "grouped_by self2 = grouped_by self"
    using fit_last_pass [of env self train_data dev_data] by blast
  have ok: "fit_inner env self2 (train_data @ dev_data) = (self', None)"
    using assms(1) eq by simp
  obtain name where name: "select_module_name self2 = Inr name"
    using ok by (cases "select_module_name self2") (simp_all add: fit_inner_def)
  obtain cls where cls: "resolve_model_class env name = Inr cls"
    using ok name by (cases "resolve_model_class env name") (simp_all add: fit_inner_def)
  have mem: "(grp, sd) \<in> set (grouped (group_by (ts_analysis self2)) group_key
                              (sort_values env mdb_original_oby (train_data @ dev_data)))"
    using assms(2) ts by simp
  from fit_inner_written [OF ok name cls mem]
  obtain m where c: "cutoffs self' grp
             = Some (index (last (if grouped_by self2 = [''__default'']
                                  then sort_values env mdb_original_oby (train_data @ dev_data)
                                  else sd)))"
    and m: "models self' grp = Some m"
    and w: "written_forecaster env cls self2
              (sort_values env mdb_original_oby (train_data @ dev_data)) grp sd m"
    by auto
  have "\<not> is_fitted m"
    using written_forecaster_skipped [OF w] assms(3) ts by simp
  then show ?thesis using c m gb call_group_unfitted [of self' grp m env ydf first rest] by simp
qed

text \<open>
  C4 as stated fails: group B of the training frame has two observations, fewer than
  the window of ten, the fit returns, and the registry holds a forecaster and a cutoff
  for B.
\<close>

theorem skipped_group_has_entry_example:
  "(''B'', example_group_b) \<in> set (grouped [''store''] group_key
                                      (sort_values example_env mdb_original_oby example_train))
   \<and> int (length example_group_b) < window (ts_analysis example_mixer)
   \<and> snd (fit example_env example_mixer example_train []) = None
   \<and> models (fst (fit example_env example_mixer example_train [])) ''B'' \<noteq> None
   \<and> cutoffs (fst (fit example_env example_mixer example_train [])) ''B''
       = Some (10 * 86400000000000)"
proof -
  have "(''B'', example_group_b) \<in> set (grouped [''store''] group_key
                                      (sort_values example_env mdb_original_oby example_train))"
    by (simp add: example_grouped)
  moreover have "int (length example_group_b) < window (ts_analysis example_mixer)"
    by (simp add: example_group_b_def example_mixer_def example_analysis_def)
  moreover have "snd (fit example_env example_mixer example_train []) = None" by code_simp
  moreover have "models (fst (fit example_env example_mixer example_train [])) ''B'' \<noteq> None"
    by code_simp
  moreover have "cutoffs (fst (fit example_env example_mixer example_train [])) ''B''
       = Some (10 * 86400000000000)" by code_simp
  ultimately show ?thesis by simp
qed

text \<open>
  The statement at group B of the training frame, and two later rows of B at inference.
\<close>

theorem skipped_group_has_unfitted_entry_witness:
  "(''B'', example_group_b) \<in> set (grouped (group_by (ts_analysis example_mixer)) group_key
                                      (sort_values example_env mdb_original_oby (example_train @ [])))
   \<and> \<not> window (ts_analysis example_mixer) < int (length example_group_b * n_columns example_env)
   \<and> snd (fit example_env example_mixer example_train []) = None
   \<and> (\<exists>m. models example_trained_mixer ''B'' = Some m \<and> \<not> is_fitted m)
   \<and> cutoffs example_trained_mixer ''B'' = Some (10 * 86400000000000)
   \<and> call_group example_env example_trained_mixer [Zero, Zero]
        (''B'', [(0, example_row 50 ''B'' 8), (1, example_row 51 ''B'' 9)])
       = call_default example_trained_mixer [Zero, Zero] (NdArray [Some 8, Some 9]) [0, 1]"
proof -
  have h2: "(''B'', example_group_b) \<in> set (grouped (group_by (ts_analysis example_mixer)) group_key
                                      (sort_values example_env mdb_original_oby (example_train @ [])))"
    using example_grouped by (simp add: example_mixer_def example_analysis_def)
  have h3: "\<not> window (ts_analysis example_mixer) < int (length example_group_b * n_columns example_env)"
    by (simp add: example_defs example_group_b_def)
  have s: "snd (fit example_env example_mixer example_train []) = None" by code_simp
  have h1: "fit example_env example_mixer example_train [] = (example_trained_mixer, None)"
    using s unfolding example_trained_mixer_def by (metis surjective_pairing)
  have t: "map (\<lambda>(i, r). target r) [(0 :: nat, example_row 50 ''B'' 8), (1, example_row 51 ''B'' 9)]
             = [Some 8, Some 9]"
    by (simp add: example_row_def)
  have g: "grouped_by example_mixer \<noteq> [''__default'']" by (simp add: example_mixer_def)
  have l: "index (last example_group_b) = 10 * 86400000000000"
    by (simp add: example_group_b_def example_row_def)
  show ?thesis
    using skipped_group_has_unfitted_entry
            [OF h1 h2 h3, of "[Zero, Zero]" "(0, example_row 50 ''B'' 8)" "[(1, example_row 51 ''B'' 9)]"]
      s h2 h3 t g l by simp
qed

end
